theory Spec2Isabelle
  imports Main "HOL-Library.Word"
begin

unbundle bit_operations_syntax

section \<open>A file upload and retrieval service\<close>

text \<open>
  The program is one Go file, \<^verbatim>\<open>main.go\<close>: \<^verbatim>\<open>basicAuth\<close> checks the
  Authorization header, \<^verbatim>\<open>uploadHander\<close> stores an uploaded file under a dated path
  with a random name, \<^verbatim>\<open>getHandler\<close> serves a stored file back. The three functions
  are embedded below as HOL functions of the same names. What they call in Go's standard
  library, in google/uuid and in gorilla/mux is embedded first, each function under its
  Go name, following the library's source or documented contract on a Unix system
  (path separator \<open>/\<close>). Go strings are byte strings: \<^typ>\<open>string\<close>, one
  \<^typ>\<open>char\<close> per byte.
\<close>

subsection \<open>Package strings\<close>

definition strings_HasPrefix :: "string \<Rightarrow> string \<Rightarrow> bool" where
  "strings_HasPrefix s pre = (length pre \<le> length s \<and> take (length pre) s = pre)"

definition strings_HasSuffix :: "string \<Rightarrow> string \<Rightarrow> bool" where
  "strings_HasSuffix s suf =
     (length suf \<le> length s \<and> drop (length s - length suf) s = suf)"

text \<open>\<^verbatim>\<open>strings.Index\<close>: the index of the first instance of \<open>sep\<close>, \<open>None\<close> for Go's -1.\<close>

fun strings_Index :: "string \<Rightarrow> string \<Rightarrow> nat option" where
  "strings_Index [] sep = (if sep = [] then Some 0 else None)"
| "strings_Index (c # s) sep =
     (if strings_HasPrefix (c # s) sep then Some 0
      else map_option Suc (strings_Index s sep))"

text \<open>
  \<^verbatim>\<open>strings.Cut\<close>:
  \<^verbatim>\<open>if i := Index(s, sep); i >= 0 { return s[:i], s[i+len(sep):], true }; return s, "", false\<close>
\<close>

definition strings_Cut :: "string \<Rightarrow> string \<Rightarrow> string \<times> string \<times> bool" where
  "strings_Cut s sep =
     (case strings_Index s sep of
        Some i \<Rightarrow> (take i s, drop (i + length sep) s, True)
      | None \<Rightarrow> (s, [], False))"

text \<open>\<^verbatim>\<open>strings.Join\<close>: the elements with \<open>sep\<close> between them.\<close>

fun strings_Join :: "string list \<Rightarrow> string \<Rightarrow> string" where
  "strings_Join [] sep = []"
| "strings_Join [e] sep = e"
| "strings_Join (e # es) sep = e @ sep @ strings_Join es sep"

text \<open>
  Splitting at every byte that satisfies \<open>f\<close>, empty pieces kept; \<^verbatim>\<open>strings.FieldsFunc\<close>
  is the same with the empty pieces dropped.
\<close>

fun split_when :: "(char \<Rightarrow> bool) \<Rightarrow> string \<Rightarrow> string list" where
  "split_when f [] = [[]]"
| "split_when f (c # s) =
     (if f c then [] # split_when f s
      else (case split_when f s of
              [] \<Rightarrow> [[c]]
            | w # ws \<Rightarrow> (c # w) # ws))"

definition strings_FieldsFunc :: "string \<Rightarrow> (char \<Rightarrow> bool) \<Rightarrow> string list" where
  "strings_FieldsFunc s f = filter (\<lambda>w. w \<noteq> []) (split_when f s)"

subsection \<open>Package fmt: the verbs the program uses\<close>

text \<open>\<^verbatim>\<open>%d\<close> prints a decimal number, a negative one with a minus sign.\<close>

definition digit_char :: "nat \<Rightarrow> char" where
  "digit_char d = ''0123456789'' ! d"

fun fmt_nat :: "nat \<Rightarrow> string" where
  "fmt_nat n = (if n < 10 then [digit_char n] else fmt_nat (n div 10) @ [digit_char (n mod 10)])"

declare fmt_nat.simps [simp del]

definition fmt_d :: "int \<Rightarrow> string" where
  "fmt_d i = (if i < 0 then CHR ''-'' # fmt_nat (nat (- i)) else fmt_nat (nat i))"

text \<open>
  \<^verbatim>\<open>%02d\<close> pads with zeros to a width of two, the sign counted in the width and
  written before the zeros; a longer number is printed whole.
\<close>

definition fmt_02d :: "int \<Rightarrow> string" where
  "fmt_02d i =
     (if i < 0 then CHR ''-'' # fmt_nat (nat (- i))
      else if i < 10 then CHR ''0'' # fmt_nat (nat i)
      else fmt_nat (nat i))"

subsection \<open>Package path/filepath\<close>

definition IsPathSeparator :: "char \<Rightarrow> bool" where
  "IsPathSeparator c = (c = CHR ''/'')"

text \<open>
  \<^verbatim>\<open>filepath.Ext\<close>: scanning from the end and stopping at a separator, the suffix that
  starts at the first dot met:
  \<^verbatim>\<open>for i := len(path) - 1; i >= 0 && !os.IsPathSeparator(path[i]); i-- { if path[i] == '.' { return path[i:] } }; return ""\<close>
  \<open>ext_scan\<close> reads the reversed path and keeps the bytes already passed.
\<close>

fun ext_scan :: "string \<Rightarrow> string \<Rightarrow> string" where
  "ext_scan [] passed = []"
| "ext_scan (c # front) passed =
     (if IsPathSeparator c then []
      else if c = CHR ''.'' then c # passed
      else ext_scan front (c # passed))"

definition filepath_Ext :: "string \<Rightarrow> string" where
  "filepath_Ext path = ext_scan (rev path) []"

text \<open>
  \<^verbatim>\<open>filepath.Base\<close>: the last element of the path, trailing separators removed first;
  \<open>.\<close> for the empty path and \<open>/\<close> for a path of separators only.
\<close>

definition filepath_Base :: "string \<Rightarrow> string" where
  "filepath_Base path =
     (if path = [] then ''.''
      else (let stripped = rev (dropWhile IsPathSeparator (rev path));
                last_elem = rev (takeWhile (\<lambda>c. \<not> IsPathSeparator c) (rev stripped))
            in if last_elem = [] then ''/'' else last_elem))"

text \<open>
  \<^verbatim>\<open>filepath.Clean\<close>, element by element as its loop goes: empty elements and \<open>.\<close>
  are dropped; \<open>..\<close> removes the element before it when there is one that is not
  itself \<open>..\<close>, is dropped at the root of a rooted path, and is kept otherwise. The
  elements kept are held last first. The empty result is \<open>.\<close>.
\<close>

fun clean_step :: "bool \<Rightarrow> string list \<Rightarrow> string \<Rightarrow> string list" where
  "clean_step rooted kept e =
     (if e = [] \<or> e = ''.'' then kept
      else if e = ''..'' then
        (case kept of
           [] \<Rightarrow> (if rooted then [] else [''..''])
         | k # ks \<Rightarrow> (if k = ''..'' then ''..'' # k # ks else ks))
      else e # kept)"

definition filepath_Clean :: "string \<Rightarrow> string" where
  "filepath_Clean path =
     (if path = [] then ''.''
      else (let rooted = IsPathSeparator (hd path);
                kept = foldl (clean_step rooted) [] (split_when IsPathSeparator path);
                out = strings_Join (rev kept) ''/''
            in if rooted then CHR ''/'' # out
               else if out = [] then ''.'' else out))"

text \<open>
  \<^verbatim>\<open>filepath.Join\<close>: from the first non-empty element on, the elements are joined
  with the separator and the result is cleaned; with no non-empty element it is empty.
  \<^verbatim>\<open>for i, e := range elem { if e != "" { return Clean(strings.Join(elem[i:], "/")) } }; return ""\<close>
\<close>

definition filepath_Join :: "string list \<Rightarrow> string" where
  "filepath_Join elem =
     (case dropWhile (\<lambda>e. e = []) elem of
        [] \<Rightarrow> []
      | es \<Rightarrow> filepath_Clean (strings_Join es ''/''))"

subsection \<open>Package encoding/base64: \<^verbatim>\<open>StdEncoding.DecodeString\<close>\<close>

definition encodeStd :: string where
  "encodeStd = ''ABCDEFGHIJKLMNOPQRSTUVWXYZabcdefghijklmnopqrstuvwxyz0123456789+/''"

fun IndexByte :: "string \<Rightarrow> char \<Rightarrow> nat option" where
  "IndexByte [] c = None"
| "IndexByte (x # xs) c = (if x = c then Some 0 else map_option Suc (IndexByte xs c))"

definition decodeMap :: "char \<Rightarrow> nat option" where
  "decodeMap c = IndexByte encodeStd c"

text \<open>
  The input is read four symbols at a time, each symbol six bits of a 24-bit value that
  gives three bytes. Only the last group may be padded: \<open>xx==\<close> gives one byte,
  \<open>xxx=\<close> two. The standard encoding is not strict: the unused low bits of a padded
  group are not checked. Anything else is a \<^verbatim>\<open>CorruptInputError\<close>, here \<open>None\<close>.
\<close>

fun decodeQuantum :: "string \<Rightarrow> string option" where
  "decodeQuantum (a # b # c # d # rest) =
     (case (decodeMap a, decodeMap b) of
        (Some va, Some vb) \<Rightarrow>
          (if c = CHR ''='' \<and> d = CHR ''='' \<and> rest = [] then
             Some [char_of ((va * 262144 + vb * 4096) div 65536)]
           else
             (case decodeMap c of
                None \<Rightarrow> None
              | Some vc \<Rightarrow>
                  (if d = CHR ''='' \<and> rest = [] then
                     (let v = va * 262144 + vb * 4096 + vc * 64
                      in Some [char_of (v div 65536), char_of (v div 256)])
                   else
                     (case decodeMap d of
                        None \<Rightarrow> None
                      | Some vd \<Rightarrow>
                          (let v = va * 262144 + vb * 4096 + vc * 64 + vd
                           in map_option
                                (\<lambda>out. char_of (v div 65536) # char_of (v div 256) # char_of v # out)
                                (decodeQuantum rest))))))
      | _ \<Rightarrow> None)"
| "decodeQuantum [] = Some []"
| "decodeQuantum _ = None"

text \<open>Carriage returns and line feeds in the input are ignored.\<close>

definition base64_DecodeString :: "string \<Rightarrow> string option" where
  "base64_DecodeString s =
     decodeQuantum (filter (\<lambda>c. c \<noteq> CHR 0x0D \<and> c \<noteq> CHR 0x0A) s)"

subsection \<open>Package github.com/google/uuid\<close>

text \<open>
  A UUID is sixteen bytes, here a 128-bit word with the first byte the most significant.
  \<^verbatim>\<open>String\<close> writes them in lower-case hexadecimal, grouped 4-2-2-2-6 bytes with
  dashes: \<^verbatim>\<open>xxxxxxxx-xxxx-xxxx-xxxx-xxxxxxxxxxxx\<close>.
\<close>

type_synonym UUID = "128 word"

definition hextable :: string where
  "hextable = ''0123456789abcdef''"

definition hex_byte :: "8 word \<Rightarrow> string" where
  "hex_byte v = [hextable ! unat (drop_bit 4 v), hextable ! unat (v AND 0x0f)]"

definition hex_Encode :: "8 word list \<Rightarrow> string" where
  "hex_Encode src = concat (map hex_byte src)"

definition UUID_bytes :: "UUID \<Rightarrow> 8 word list" where
  "UUID_bytes u = map (\<lambda>i. ucast (drop_bit (8 * (15 - i)) u)) [0..<16]"

definition UUID_String :: "UUID \<Rightarrow> string" where
  "UUID_String u =
     (let b = UUID_bytes u
      in hex_Encode (take 4 b) @ ''-'' @ hex_Encode (take 2 (drop 4 b)) @ ''-'' @
         hex_Encode (take 2 (drop 6 b)) @ ''-'' @ hex_Encode (take 2 (drop 8 b)) @ ''-'' @
         hex_Encode (drop 10 b))"

subsection \<open>The file system\<close>

text \<open>
  The file system is what the operating system answers for a path: an error number, or
  the file or directory found there together with whether its mode lets the server read
  it. A path with nothing at it answers \<open>ENOENT\<close>; a path the server may not reach
  answers \<open>EACCES\<close>. A file of mode 000 is found, and is not readable: looking it up
  succeeds and opening it fails. The handlers only use paths that \<^verbatim>\<open>filepath.Join\<close>
  has cleaned, and the paths are the keys as they stand.
\<close>

datatype errno = ENOENT | EACCES | ENOTDIR | EISDIR | ENOSPC | EIO

datatype node = File string | Dir

type_synonym filesystem = "string \<Rightarrow> errno + (bool \<times> node)"

subsection \<open>Requests and responses\<close>

text \<open>
  Of a request, what the handlers and \<^verbatim>\<open>http.ServeFile\<close> read: the method, the URL
  path and query, the headers, the parts of the multipart form when the body is one, and
  the variables the router has matched. Of a response: the status, the headers and the
  body.
\<close>

record response =
  Status :: nat
  Headers :: "string \<rightharpoonup> string"
  Body :: string

record part =
  FormName :: string
  FileNameParam :: string
  Data :: string

record request =
  Method :: string
  URL_Path :: string
  RawQuery :: string
  Header :: "string \<rightharpoonup> string list"
  MultipartForm :: "part list option"
  Vars :: "string \<rightharpoonup> string"

subsection \<open>The environment of a request\<close>

text \<open>
  What the calls of one request meet outside the program: the clock, the random
  identifier, whether the umask of the server process leaves the read bit on what the
  process creates (\<^verbatim>\<open>os.Create\<close> asks for mode 0666, \<^verbatim>\<open>os.MkdirAll\<close> here for
  0777), the failures of the operating system that the file system above does not
  decide (a full disk, a failing device), the table of MIME types of the host, and the
  parts of net/http's file server that depend on data the model does not hold (the
  entries and times of a directory, the modification time of a file).
\<close>

record date =
  Year :: int
  Month :: int
  Day :: int

record env =
  time_Now :: date
  uuid_New :: UUID
  umask_keeps_read :: bool
  MkdirAll_fails :: "(nat \<times> errno) option"
  Create_fails :: "errno option"
  Copy_fails :: "(nat \<times> errno) option"
  mime_TypeByExtension :: "string \<Rightarrow> string"
  dirList :: "string \<Rightarrow> string"
  serveContent_conditional :: "(string \<rightharpoonup> string) \<Rightarrow> request \<Rightarrow> string \<Rightarrow> response"

subsection \<open>Packages os and io\<close>

text \<open>
  \<^verbatim>\<open>os.Stat\<close> answers with what is at the path, readable or not. \<^verbatim>\<open>os.Open\<close> opens
  for reading, and fails with \<open>EACCES\<close> on what the server may not read.
\<close>

definition os_Stat :: "filesystem \<Rightarrow> string \<Rightarrow> errno + node" where
  "os_Stat fs name = (case fs name of Inl e \<Rightarrow> Inl e | Inr (readable, n) \<Rightarrow> Inr n)"

definition os_Open :: "filesystem \<Rightarrow> string \<Rightarrow> errno + node" where
  "os_Open fs name =
     (case fs name of
        Inl e \<Rightarrow> Inl e
      | Inr (readable, n) \<Rightarrow> (if readable then Inr n else Inl EACCES))"

text \<open>\<^verbatim>\<open>os.IsNotExist\<close>: false for the nil error, true for \<open>ENOENT\<close> only.\<close>

fun os_IsNotExist :: "errno option \<Rightarrow> bool" where
  "os_IsNotExist None = False"
| "os_IsNotExist (Some e) = (e = ENOENT)"

text \<open>The path itself and the directories above it, outermost first.\<close>

definition path_prefixes :: "string \<Rightarrow> string list" where
  "path_prefixes p = map (\<lambda>i. take i p) (filter (\<lambda>i. p ! i = CHR ''/'') [1..<length p]) @ [p]"

definition is_File :: "errno + (bool \<times> node) \<Rightarrow> bool" where
  "is_File x = (case x of Inr (_, File _) \<Rightarrow> True | _ \<Rightarrow> False)"

definition is_Dir :: "errno + (bool \<times> node) \<Rightarrow> bool" where
  "is_Dir x = (case x of Inr (_, Dir) \<Rightarrow> True | _ \<Rightarrow> False)"

definition mkdir :: "env \<Rightarrow> filesystem \<Rightarrow> string \<Rightarrow> filesystem" where
  "mkdir env fs p =
     (if fs p = Inl ENOENT then fs(p := Inr (umask_keeps_read env, Dir)) else fs)"

text \<open>
  \<^verbatim>\<open>os.MkdirAll\<close> makes the directory and the missing ones above it; a directory that
  is there already is no error. It fails with \<open>ENOTDIR\<close>, changing nothing, when the
  path or one above it is a file. It may fail for a reason of the environment's, after
  making some of the directories.
\<close>

definition os_MkdirAll :: "env \<Rightarrow> filesystem \<Rightarrow> string \<Rightarrow> errno option \<times> filesystem" where
  "os_MkdirAll env fs path =
     (if \<exists>q \<in> set (path_prefixes path). is_File (fs q) then (Some ENOTDIR, fs)
      else (case MkdirAll_fails env of
              Some (k, e) \<Rightarrow> (Some e, foldl (mkdir env) fs (take k (path_prefixes path)))
            | None \<Rightarrow> (None, foldl (mkdir env) fs (path_prefixes path))))"

text \<open>
  \<^verbatim>\<open>os.Create\<close> opens the file for reading and writing, creating it with mode 0666
  less the umask when nothing is there, truncating it when a file is there. A directory
  cannot be opened so, nor a file the server may not read, nor a path that answers an
  error other than \<open>ENOENT\<close>. It may fail for a reason of the environment's.
\<close>

definition os_Create :: "env \<Rightarrow> filesystem \<Rightarrow> string \<Rightarrow> errno option \<times> filesystem" where
  "os_Create env fs name =
     (case fs name of
        Inr (readable, Dir) \<Rightarrow> (Some EISDIR, fs)
      | Inr (readable, File old) \<Rightarrow>
          (if \<not> readable then (Some EACCES, fs)
           else (case Create_fails env of
                   Some e \<Rightarrow> (Some e, fs)
                 | None \<Rightarrow> (None, fs(name := Inr (True, File [])))))
      | Inl e \<Rightarrow>
          (if e \<noteq> ENOENT then (Some e, fs)
           else (case Create_fails env of
                   Some e' \<Rightarrow> (Some e', fs)
                 | None \<Rightarrow> (None, fs(name := Inr (umask_keeps_read env, File []))))))"

text \<open>
  \<^verbatim>\<open>io.Copy\<close> into the file just created: all of the source, or, when it fails, the
  bytes written before the failure. The mode of the file stays as it is. The handler
  copies into the file that \<^verbatim>\<open>os.Create\<close> has just opened, so there is a file at
  the path; were there none, the file written would not be readable.
\<close>

definition write_file :: "filesystem \<Rightarrow> string \<Rightarrow> string \<Rightarrow> filesystem" where
  "write_file fs dst bytes =
     fs(dst := Inr (case fs dst of Inr (readable, n) \<Rightarrow> readable | Inl e \<Rightarrow> False, File bytes))"

definition io_Copy :: "env \<Rightarrow> filesystem \<Rightarrow> string \<Rightarrow> string \<Rightarrow> errno option \<times> filesystem" where
  "io_Copy env fs dst src =
     (case Copy_fails env of
        Some (n, e) \<Rightarrow> (Some e, write_file fs dst (take n src))
      | None \<Rightarrow> (None, write_file fs dst src))"

subsection \<open>Package net/http\<close>

definition StatusOK :: nat where "StatusOK = 200"
definition StatusMovedPermanently :: nat where "StatusMovedPermanently = 301"
definition StatusNotModified :: nat where "StatusNotModified = 304"
definition StatusBadRequest :: nat where "StatusBadRequest = 400"
definition StatusUnauthorized :: nat where "StatusUnauthorized = 401"
definition StatusForbidden :: nat where "StatusForbidden = 403"
definition StatusNotFound :: nat where "StatusNotFound = 404"
definition StatusMethodNotAllowed :: nat where "StatusMethodNotAllowed = 405"
definition StatusPreconditionFailed :: nat where "StatusPreconditionFailed = 412"
definition StatusInternalServerError :: nat where "StatusInternalServerError = 500"

text \<open>
  \<^verbatim>\<open>Header.Get\<close>: the first value stored under the key, empty when there is none. The
  server stores request headers under their canonical names, and \<open>Authorization\<close> is
  canonical.
\<close>

definition Header_Get :: "(string \<rightharpoonup> string list) \<Rightarrow> string \<Rightarrow> string" where
  "Header_Get h key = (case h key of Some (v # _) \<Rightarrow> v | _ \<Rightarrow> [])"

text \<open>Reading a Go map of strings: the empty string for a missing key.\<close>

definition map_index :: "(string \<rightharpoonup> string) \<Rightarrow> string \<Rightarrow> string" where
  "map_index m key = (case m key of Some v \<Rightarrow> v | None \<Rightarrow> [])"

text \<open>
  A handler sets headers on its response writer and then ends with one call that writes the
  status and the body; \<open>h\<close> below is the headers set so far.
  \<^verbatim>\<open>http.Error\<close> removes Content-Length, sets the two headers of a plain-text error,
  writes the status and prints the message with a line feed.
\<close>

definition http_Error :: "(string \<rightharpoonup> string) \<Rightarrow> string \<Rightarrow> nat \<Rightarrow> response" where
  "http_Error h msg code =
     \<lparr>Status = code,
      Headers = (h(''Content-Length'' := None))
                  (''Content-Type'' \<mapsto> ''text/plain; charset=utf-8'',
                   ''X-Content-Type-Options'' \<mapsto> ''nosniff''),
      Body = msg @ [CHR 0x0A]\<rparr>"

definition http_NotFound :: "(string \<rightharpoonup> string) \<Rightarrow> response" where
  "http_NotFound h = http_Error h ''404 page not found'' StatusNotFound"

text \<open>
  \<^verbatim>\<open>Request.FormFile\<close>: the first file of the multipart form under the key. A part is a
  file when its Content-Disposition has a non-empty filename parameter, and the name kept
  in the file's header is \<^verbatim>\<open>filepath.Base\<close> of that parameter. A body that is not a
  multipart form is an error as well.
\<close>

datatype form_error = ErrNotMultipart | ErrMissingFile

record FileHeader =
  Filename :: string

definition FormFile :: "request \<Rightarrow> string \<Rightarrow> form_error + (string \<times> FileHeader)" where
  "FormFile r key =
     (case MultipartForm r of
        None \<Rightarrow> Inl ErrNotMultipart
      | Some parts \<Rightarrow>
          (case filter (\<lambda>p. FormName p = key \<and> FileNameParam p \<noteq> []) parts of
             [] \<Rightarrow> Inl ErrMissingFile
           | p # _ \<Rightarrow> Inr (Data p, \<lparr>Filename = filepath_Base (FileNameParam p)\<rparr>)))"

text \<open>
  \<^verbatim>\<open>http.ServeFile\<close>. It refuses a request whose URL path has a \<open>..\<close> element
  (elements are separated by slashes and backslashes), and redirects one whose URL path
  ends in \<open>/index.html\<close>. When the file cannot be opened the error decides the status:
  404 for a missing file, 403 for a refused one, 500 otherwise, where an error that is
  neither of the first two counts as a missing file if something above the path is not a
  directory. An error response drops the caching headers set before
  (\<^verbatim>\<open>serveError\<close>). A directory is redirected to its name with a slash, or served
  through its \<open>index.html\<close> or as a listing. A file is served with status 200 and
  the headers the handler has set; a HEAD request gets no body. The handlers pass paths
  that \<^verbatim>\<open>filepath.Join\<close> has cleaned, and the file opened is the one at that path.
  Headers that the server adds of its own when it writes a response (Content-Length,
  Last-Modified, Accept-Ranges, Date, a Content-Type found by sniffing) are not held in
  the model. A request with the header \<open>If-None-Match: *\<close> and neither If-Match nor
  If-Unmodified-Since is answered 304 without Content-Type when it is a GET or a HEAD, and
  412 otherwise (\<^verbatim>\<open>checkPreconditions\<close>, \<^verbatim>\<open>writeNotModified\<close>). The answer to any
  other request with a Range header or a precondition header depends on modification
  times, and is the environment's.
\<close>

definition serveError :: "(string \<rightharpoonup> string) \<Rightarrow> string \<Rightarrow> nat \<Rightarrow> response" where
  "serveError h msg code =
     http_Error
       (h(''Cache-Control'' := None, ''Content-Encoding'' := None, ''Etag'' := None,
          ''Last-Modified'' := None))
       msg code"

definition isSlashRune :: "char \<Rightarrow> bool" where
  "isSlashRune c = (c = CHR ''/'' \<or> c = CHR 0x5C)"

definition containsDotDot :: "string \<Rightarrow> bool" where
  "containsDotDot v =
     (strings_Index v ''..'' \<noteq> None \<and> ''..'' \<in> set (strings_FieldsFunc v isSlashRune))"

definition toHTTPError :: "errno \<Rightarrow> string \<times> nat" where
  "toHTTPError e =
     (if e = ENOENT then (''404 page not found'', StatusNotFound)
      else if e = EACCES then (''403 Forbidden'', StatusForbidden)
      else (''500 Internal Server Error'', StatusInternalServerError))"

fun mapOpenError_walk :: "filesystem \<Rightarrow> errno \<Rightarrow> string list \<Rightarrow> errno" where
  "mapOpenError_walk fs originalErr [] = originalErr"
| "mapOpenError_walk fs originalErr (q # qs) =
     (case os_Stat fs q of
        Inl _ \<Rightarrow> originalErr
      | Inr (File _) \<Rightarrow> ENOENT
      | Inr Dir \<Rightarrow> mapOpenError_walk fs originalErr qs)"

definition mapOpenError :: "filesystem \<Rightarrow> errno \<Rightarrow> string \<Rightarrow> errno" where
  "mapOpenError fs originalErr name =
     (if originalErr = ENOENT \<or> originalErr = EACCES then originalErr
      else mapOpenError_walk fs originalErr (path_prefixes name))"

definition Dir_Open :: "filesystem \<Rightarrow> string \<Rightarrow> errno + node" where
  "Dir_Open fs name =
     (case os_Open fs name of
        Inl e \<Rightarrow> Inl (mapOpenError fs e name)
      | Inr n \<Rightarrow> Inr n)"

definition localRedirect :: "(string \<rightharpoonup> string) \<Rightarrow> request \<Rightarrow> string \<Rightarrow> response" where
  "localRedirect h r newPath =
     \<lparr>Status = StatusMovedPermanently,
      Headers = h(''Location'' \<mapsto> (if RawQuery r \<noteq> [] then newPath @ ''?'' @ RawQuery r else newPath)),
      Body = []\<rparr>"

definition precondition_headers :: "string list" where
  "precondition_headers =
     [''Range'', ''If-Range'', ''If-Match'', ''If-None-Match'', ''If-Modified-Since'',
      ''If-Unmodified-Since'']"

definition plain_request :: "request \<Rightarrow> bool" where
  "plain_request r = list_all (\<lambda>k. Header_Get (Header r) k = []) precondition_headers"

definition writeNotModified :: "(string \<rightharpoonup> string) \<Rightarrow> response" where
  "writeNotModified h =
     (let h' = h(''Content-Type'' := None, ''Content-Length'' := None,
                 ''Content-Encoding'' := None)
      in \<lparr>Status = StatusNotModified,
          Headers = (if map_index h' ''Etag'' \<noteq> [] then h'(''Last-Modified'' := None) else h'),
          Body = []\<rparr>)"

definition serveContent :: "env \<Rightarrow> (string \<rightharpoonup> string) \<Rightarrow> request \<Rightarrow> string \<Rightarrow> response" where
  "serveContent env h r content =
     (if plain_request r then
        \<lparr>Status = StatusOK, Headers = h, Body = (if Method r = ''HEAD'' then [] else content)\<rparr>
      else if Header_Get (Header r) ''If-Match'' = [] \<and>
              Header_Get (Header r) ''If-Unmodified-Since'' = [] \<and>
              Header_Get (Header r) ''If-None-Match'' = ''*'' then
        (if Method r = ''GET'' \<or> Method r = ''HEAD'' then writeNotModified h
         else \<lparr>Status = StatusPreconditionFailed, Headers = h, Body = []\<rparr>)
      else serveContent_conditional env h r content)"

definition serveDirList :: "env \<Rightarrow> (string \<rightharpoonup> string) \<Rightarrow> request \<Rightarrow> string \<Rightarrow> response" where
  "serveDirList env h r name =
     (if plain_request r then
        \<lparr>Status = StatusOK, Headers = h(''Content-Type'' \<mapsto> ''text/html; charset=utf-8''),
         Body = dirList env name\<rparr>
      else serveContent_conditional env h r (dirList env name))"

definition http_ServeFile ::
  "env \<Rightarrow> filesystem \<Rightarrow> (string \<rightharpoonup> string) \<Rightarrow> request \<Rightarrow> string \<Rightarrow> response" where
  "http_ServeFile env fs h r name =
     (if containsDotDot (URL_Path r) then serveError h ''invalid URL path'' StatusBadRequest
      else if strings_HasSuffix (URL_Path r) ''/index.html'' then localRedirect h r ''./''
      else
        (case Dir_Open fs name of
           Inl e \<Rightarrow> (case toHTTPError e of (msg, code) \<Rightarrow> serveError h msg code)
         | Inr (File content) \<Rightarrow> serveContent env h r content
         | Inr Dir \<Rightarrow>
             (if URL_Path r = [] \<or> last (URL_Path r) \<noteq> CHR ''/'' then
                localRedirect h r (filepath_Base (URL_Path r) @ ''/'')
              else
                (case Dir_Open fs (filepath_Join [name, ''index.html'']) of
                   Inr (File content) \<Rightarrow> serveContent env h r content
                 | Inr Dir \<Rightarrow> serveDirList env h r (filepath_Join [name, ''index.html''])
                 | Inl _ \<Rightarrow> serveDirList env h r name))))"

section \<open>The program\<close>

record config =
  Host :: string
  Port :: string
  UploadDir :: string
  AccessPrefix :: string
  Username :: string
  Password :: string

text \<open>
  The errors of \<^verbatim>\<open>basicAuth\<close>: \<^verbatim>\<open>errors.New\<close> with its message, and the decoding
  error wrapped by \<^verbatim>\<open>fmt.Errorf\<close>. \<open>None\<close> is Go's nil error.
\<close>

datatype error = errors_New string | fmt_Errorf_CorruptInput string

definition basicAuth :: "request \<Rightarrow> config \<Rightarrow> error option" where
  "basicAuth r cfg =
     (let authHeader = Header_Get (Header r) ''Authorization''
      in if length authHeader = 0 then Some (errors_New ''authorization header is missing'')
         else (case strings_Cut authHeader '' '' of
                 (authType, authInfo, ok) \<Rightarrow>
                   if \<not> ok \<or> authType \<noteq> ''Basic'' then
                     Some (errors_New ''invalid authorization type'')
                   else (case base64_DecodeString authInfo of
                           None \<Rightarrow>
                             Some (fmt_Errorf_CorruptInput ''failed to decode basic auth info'')
                         | Some decoded \<Rightarrow>
                             (case strings_Cut decoded '':'' of
                                (username, password, ok) \<Rightarrow>
                                  if \<not> ok \<or> username \<noteq> Username cfg \<or> password \<noteq> Password cfg
                                  then Some (errors_New ''invalid credentials'')
                                  else None))))"

text \<open>
  \<^verbatim>\<open>uploadHander\<close> takes the file system and returns it as the request leaves it, with
  the response.
\<close>

definition uploadHander ::
  "env \<Rightarrow> filesystem \<Rightarrow> request \<Rightarrow> config \<Rightarrow> filesystem \<times> response" where
  "uploadHander env fs r cfg =
     (if Method r \<noteq> ''POST'' then
        (fs, http_Error Map.empty ''Method not allowed'' StatusMethodNotAllowed)
      else
        (case basicAuth r cfg of
           Some err \<Rightarrow> (fs, http_Error Map.empty ''Unauthorized'' StatusUnauthorized)
         | None \<Rightarrow>
             (case FormFile r ''file'' of
                Inl err \<Rightarrow> (fs, http_Error Map.empty ''Bad Request: Missing file'' StatusBadRequest)
              | Inr (file, header) \<Rightarrow>
                  (let ext = filepath_Ext (Filename header);
                       filename = UUID_String (uuid_New env) @ ext;
                       now = time_Now env;
                       timePath = fmt_d (Year now) @ ''/'' @ fmt_02d (Month now) @ ''/'' @
                                  fmt_02d (Day now);
                       timeNameString = timePath @ ''/'' @ filename;
                       dirPath = filepath_Join [UploadDir cfg, timePath];
                       filePath = filepath_Join [UploadDir cfg, timeNameString]
                   in (case os_MkdirAll env fs dirPath of
                         (Some err, fs1) \<Rightarrow>
                           (fs1, http_Error Map.empty ''Internal Server Error''
                                   StatusInternalServerError)
                       | (None, fs1) \<Rightarrow>
                           (case os_Create env fs1 filePath of
                              (Some err, fs2) \<Rightarrow>
                                (fs2, http_Error Map.empty ''Internal Server Error''
                                        StatusInternalServerError)
                            | (None, fs2) \<Rightarrow>
                                (case io_Copy env fs2 filePath file of
                                   (Some err, fs3) \<Rightarrow>
                                     (fs3, http_Error Map.empty ''Internal Server Error''
                                             StatusInternalServerError)
                                 | (None, fs3) \<Rightarrow>
                                     (let url = AccessPrefix cfg @ ''/'' @ timeNameString
                                      in (fs3, \<lparr>Status = StatusOK, Headers = Map.empty,
                                                Body = url\<rparr>)))))))))"

definition getHandler :: "env \<Rightarrow> filesystem \<Rightarrow> request \<Rightarrow> config \<Rightarrow> response" where
  "getHandler env fs r cfg =
     (let vars = Vars r;
          year = map_index vars ''year'';
          month = map_index vars ''month'';
          day = map_index vars ''day'';
          filename = map_index vars ''filename'';
          ext = filepath_Ext filename;
          filePath = filepath_Join [UploadDir cfg, year, month, day, filename];
          err = (case os_Stat fs filePath of Inl e \<Rightarrow> Some e | Inr _ \<Rightarrow> None)
      in if os_IsNotExist err then http_NotFound Map.empty
         else
           (let contentType = mime_TypeByExtension env ext;
                contentType = (if length contentType = 0 then ''application/octet-stream''
                               else contentType);
                h = [''Content-Type'' \<mapsto> contentType,
                     ''Cache-Control'' \<mapsto> ''public, max-age=315360000'',
                     ''Content-Disposition'' \<mapsto> ''inline; filename='' @ [CHR 0x22] @ filename @ [CHR 0x22]]
            in http_ServeFile env fs h r filePath))"

text \<open>
  \<^verbatim>\<open>main\<close> registers \<^verbatim>\<open>getHandler\<close> under the pattern
  \<^verbatim>\<open>/<AccessPrefix>/{year}/{month}/{day}/{filename}\<close>. A variable of the pattern matches
  one non-empty path segment, so the router hands \<^verbatim>\<open>getHandler\<close> the requests whose
  URL path is the pattern filled in with the variables.
\<close>

definition segment :: "string \<Rightarrow> bool" where
  "segment s = (s \<noteq> [] \<and> CHR ''/'' \<notin> set s)"

definition routed :: "config \<Rightarrow> request \<Rightarrow> bool" where
  "routed cfg r =
     (let year = map_index (Vars r) ''year''; month = map_index (Vars r) ''month'';
          day = map_index (Vars r) ''day''; filename = map_index (Vars r) ''filename''
      in segment year \<and> segment month \<and> segment day \<and> segment filename \<and>
         URL_Path r = ''/'' @ AccessPrefix cfg @ ''/'' @ year @ ''/'' @ month @ ''/'' @ day @
                      ''/'' @ filename)"

section \<open>Words of the specification\<close>

text \<open>
  The specification calls the extension of a filename "everything from the last dot
  onward", empty when the name has no dot.
\<close>

definition from_last_dot :: "string \<Rightarrow> string" where
  "from_last_dot s =
     (if CHR ''.'' \<in> set s then CHR ''.'' # rev (takeWhile (\<lambda>c. c \<noteq> CHR ''.'') (rev s))
      else [])"

section \<open>A configuration, an environment and requests for the examples\<close>

definition example_config :: config where
  "example_config =
     \<lparr>Host = ''127.0.0.1'', Port = ''8080'', UploadDir = ''/data'', AccessPrefix = ''files'',
      Username = ''user'', Password = ''pass''\<rparr>"

definition example_env :: env where
  "example_env =
     \<lparr>time_Now = \<lparr>Year = 2024, Month = 3, Day = 5\<rparr>,
      uuid_New = 0x0123456789abcdef0123456789abcdef,
      umask_keeps_read = True,
      MkdirAll_fails = None, Create_fails = None, Copy_fails = None,
      mime_TypeByExtension = (\<lambda>ext. if ext = ''.png'' then ''image/png'' else []),
      dirList = (\<lambda>name. []),
      serveContent_conditional = (\<lambda>h r content. \<lparr>Status = 304, Headers = h, Body = []\<rparr>)\<rparr>"

definition empty_fs :: filesystem where
  "empty_fs = (\<lambda>name. Inl ENOENT)"

text \<open>An upload: the method, the Authorization header, and one file part of the form.\<close>

definition upload_request :: "string \<Rightarrow> string \<Rightarrow> string \<Rightarrow> string \<Rightarrow> string \<Rightarrow> request" where
  "upload_request method auth field fname content =
     \<lparr>Method = method, URL_Path = ''/upload'', RawQuery = [],
      Header = [''Authorization'' \<mapsto> [auth]],
      MultipartForm = Some [\<lparr>FormName = field, FileNameParam = fname, Data = content\<rparr>],
      Vars = Map.empty\<rparr>"

text \<open>A retrieval as the router hands it over: no header at all, the four variables set.\<close>

definition get_request :: "string \<Rightarrow> string \<Rightarrow> string \<Rightarrow> string \<Rightarrow> string \<Rightarrow> request" where
  "get_request prefix year month day filename =
     \<lparr>Method = ''GET'',
      URL_Path = ''/'' @ prefix @ ''/'' @ year @ ''/'' @ month @ ''/'' @ day @ ''/'' @ filename,
      RawQuery = [], Header = Map.empty, MultipartForm = None,
      Vars = [''year'' \<mapsto> year, ''month'' \<mapsto> month, ''day'' \<mapsto> day,
              ''filename'' \<mapsto> filename]\<rparr>"

text \<open>The same retrieval sent again by a client that holds a copy: \<open>If-None-Match: *\<close>.\<close>

definition conditional_get_request ::
  "string \<Rightarrow> string \<Rightarrow> string \<Rightarrow> string \<Rightarrow> string \<Rightarrow> request" where
  "conditional_get_request prefix year month day filename =
     (get_request prefix year month day filename)\<lparr>Header := [''If-None-Match'' \<mapsto> [''*'']]\<rparr>"

text \<open>An access prefix with a \<open>..\<close> element between backslashes: \<open>a\..\b\<close>.\<close>

definition backslash_prefix :: string where
  "backslash_prefix = ''a'' @ [CHR 0x5C] @ ''..'' @ [CHR 0x5C] @ ''b''"

text \<open>A file name that ends in a \<open>..\<close> element after a backslash: \<open>x\..\<close>.\<close>

definition dotdot_name :: string where
  "dotdot_name = ''x'' @ [CHR 0x5C] @ ''..''"

section \<open>Properties of the library functions\<close>

lemma strings_Index_char:
  "strings_Index s [c] = (if c \<in> set s then Some (length (takeWhile (\<lambda>x. x \<noteq> c) s)) else None)"
  by (induction s) (auto simp: strings_HasPrefix_def)

lemma strings_Cut_char:
  "strings_Cut s [c] =
     (if c \<in> set s then (takeWhile (\<lambda>x. x \<noteq> c) s, tl (dropWhile (\<lambda>x. x \<noteq> c) s), True)
      else (s, [], False))"
proof (cases "c \<in> set s")
  case True
  have "take (length (takeWhile (\<lambda>x. x \<noteq> c) s)) s = takeWhile (\<lambda>x. x \<noteq> c) s"
    by (rule takeWhile_eq_take [symmetric])
  moreover have "drop (Suc (length (takeWhile (\<lambda>x. x \<noteq> c) s))) s = tl (dropWhile (\<lambda>x. x \<noteq> c) s)"
    by (simp add: dropWhile_eq_drop drop_Suc tl_drop)
  ultimately show ?thesis using True
    by (simp add: strings_Cut_def strings_Index_char)
next
  case False
  then show ?thesis by (simp add: strings_Cut_def strings_Index_char)
qed

lemma strings_Cut_first:
  "c \<notin> set a \<Longrightarrow> strings_Cut (a @ c # b) [c] = (a, b, True)"
  by (induction a) (auto simp: strings_Cut_char)

lemma strings_Cut_found:
  assumes "strings_Cut s [c] = (a, b, True)"
  shows "s = a @ c # b \<and> c \<notin> set a"
proof -
  from assms have in_s: "c \<in> set s" and a_def: "a = takeWhile (\<lambda>x. x \<noteq> c) s"
    and b_def: "b = tl (dropWhile (\<lambda>x. x \<noteq> c) s)"
    by (auto simp: strings_Cut_char split: if_splits)
  from in_s have ne: "dropWhile (\<lambda>x. x \<noteq> c) s \<noteq> []" by simp
  then have "hd (dropWhile (\<lambda>x. x \<noteq> c) s) = c"
    using hd_dropWhile [OF ne] by simp
  with ne have "dropWhile (\<lambda>x. x \<noteq> c) s = c # b"
    unfolding b_def by (cases "dropWhile (\<lambda>x. x \<noteq> c) s") auto
  then have "s = a @ c # b"
    unfolding a_def using takeWhile_dropWhile_id [of "\<lambda>x. x \<noteq> c" s] by simp
  moreover have "c \<notin> set a" unfolding a_def by (auto dest: set_takeWhileD)
  ultimately show ?thesis by simp
qed

lemma strings_Cut_not_found:
  "c \<notin> set s \<Longrightarrow> strings_Cut s [c] = (s, [], False)"
  by (simp add: strings_Cut_char)

lemmas status_defs = StatusOK_def StatusMovedPermanently_def StatusNotModified_def
  StatusBadRequest_def StatusUnauthorized_def StatusForbidden_def StatusNotFound_def
  StatusMethodNotAllowed_def StatusPreconditionFailed_def StatusInternalServerError_def

section \<open>The credential check\<close>

lemma basicAuth_None_iff:
  "basicAuth r cfg = None \<longleftrightarrow>
     (\<exists>authInfo. Header_Get (Header r) ''Authorization'' = ''Basic '' @ authInfo \<and>
        base64_DecodeString authInfo = Some (Username cfg @ '':'' @ Password cfg) \<and>
        CHR '':'' \<notin> set (Username cfg))"
proof
  assume ok: "basicAuth r cfg = None"
  obtain ty info found where c1: "strings_Cut (Header_Get (Header r) ''Authorization'') '' '' = (ty, info, found)"
    by (cases "strings_Cut (Header_Get (Header r) ''Authorization'') '' ''") auto
  from ok c1 have f: "found" and ty: "ty = ''Basic''"
    by (auto simp: basicAuth_def Let_def split: if_splits)
  from ok c1 f ty obtain decoded where d: "base64_DecodeString info = Some decoded"
    by (auto simp: basicAuth_def Let_def split: if_splits option.splits)
  obtain u p found2 where c2: "strings_Cut decoded '':'' = (u, p, found2)"
    by (cases "strings_Cut decoded '':''") auto
  from ok c1 f ty d c2 have f2: "found2" and u: "u = Username cfg" and p: "p = Password cfg"
    by (auto simp: basicAuth_def Let_def split: if_splits)
  from strings_Cut_found c1 f ty have h: "Header_Get (Header r) ''Authorization'' = ''Basic '' @ info"
    by fastforce
  from strings_Cut_found c2 f2 u p have "decoded = Username cfg @ '':'' @ Password cfg \<and> CHR '':'' \<notin> set (Username cfg)"
    by fastforce
  with h d show "\<exists>authInfo. Header_Get (Header r) ''Authorization'' = ''Basic '' @ authInfo \<and>
        base64_DecodeString authInfo = Some (Username cfg @ '':'' @ Password cfg) \<and>
        CHR '':'' \<notin> set (Username cfg)" by auto
next
  assume "\<exists>authInfo. Header_Get (Header r) ''Authorization'' = ''Basic '' @ authInfo \<and>
        base64_DecodeString authInfo = Some (Username cfg @ '':'' @ Password cfg) \<and>
        CHR '':'' \<notin> set (Username cfg)"
  then obtain info where h: "Header_Get (Header r) ''Authorization'' = ''Basic '' @ info"
    and d: "base64_DecodeString info = Some (Username cfg @ '':'' @ Password cfg)"
    and nc: "CHR '':'' \<notin> set (Username cfg)" by auto
  have c1: "strings_Cut (Header_Get (Header r) ''Authorization'') '' '' = (''Basic'', info, True)"
    unfolding h using strings_Cut_first [of "CHR '' ''" "''Basic''" info] by simp
  have c2: "strings_Cut (Username cfg @ '':'' @ Password cfg) '':'' = (Username cfg, Password cfg, True)"
    using strings_Cut_first [OF nc, of "Password cfg"] by simp
  have ne: "Header_Get (Header r) ''Authorization'' \<noteq> []" unfolding h by simp
  show "basicAuth r cfg = None"
    using c2 by (simp add: basicAuth_def c1 d ne)
qed

lemma Header_Get_upload_request [simp]:
  "Header_Get (Header (upload_request m auth field fname content)) ''Authorization'' = auth"
  by (simp add: upload_request_def Header_Get_def)

lemma Method_upload_request [simp]:
  "Method (upload_request m auth field fname content) = m"
  by (simp add: upload_request_def)

lemma decode_user_pass: "base64_DecodeString ''dXNlcjpwYXNz'' = Some ''user:pass''"
  by (simp add: base64_DecodeString_def decodeMap_def encodeStd_def char_of_def bit_0)

lemma decode_user_wrong: "base64_DecodeString ''dXNlcjp3cm9uZw=='' = Some ''user:wrong''"
  by (simp add: base64_DecodeString_def decodeMap_def encodeStd_def char_of_def bit_0)

lemma decode_u_p_q: "base64_DecodeString ''dTpwOnE='' = Some ''u:p:q''"
  by (simp add: base64_DecodeString_def decodeMap_def encodeStd_def char_of_def bit_0)

lemma decode_user: "base64_DecodeString ''dXNlcg=='' = Some ''user''"
  by (simp add: base64_DecodeString_def decodeMap_def encodeStd_def char_of_def bit_0)

lemma decode_malformed: "base64_DecodeString ''dXNlcjpwYXN'' = None"
  by (simp add: base64_DecodeString_def decodeMap_def encodeStd_def char_of_def bit_0)

lemma basicAuth_example_ok:
  "basicAuth (upload_request m ''Basic dXNlcjpwYXNz'' field fname content) example_config = None"
  by (simp add: basicAuth_None_iff example_config_def decode_user_pass)

lemma basicAuth_example_wrong:
  "basicAuth (upload_request m ''Basic dXNlcjp3cm9uZw=='' field fname content) example_config \<noteq> None"
  by (simp add: basicAuth_None_iff example_config_def decode_user_wrong)


lemma upload_not_post:
  "Method r \<noteq> ''POST'' \<Longrightarrow>
     uploadHander env fs r cfg =
       (fs, http_Error Map.empty ''Method not allowed'' StatusMethodNotAllowed)"
  by (simp add: uploadHander_def)

lemma upload_unauthorized:
  "Method r = ''POST'' \<Longrightarrow> basicAuth r cfg \<noteq> None \<Longrightarrow>
     uploadHander env fs r cfg = (fs, http_Error Map.empty ''Unauthorized'' StatusUnauthorized)"
  by (cases "basicAuth r cfg") (simp_all add: uploadHander_def)

lemma upload_bad_request:
  "Method r = ''POST'' \<Longrightarrow> basicAuth r cfg = None \<Longrightarrow> FormFile r ''file'' = Inl e \<Longrightarrow>
     uploadHander env fs r cfg =
       (fs, http_Error Map.empty ''Bad Request: Missing file'' StatusBadRequest)"
  by (simp add: uploadHander_def)

lemma FormFile_lacking_field:
  assumes "MultipartForm r = Some parts" and "\<forall>p \<in> set parts. FormName p \<noteq> key"
  shows "FormFile r key = Inl ErrMissingFile"
proof -
  from assms(2) have "filter (\<lambda>p. FormName p = key \<and> FileNameParam p \<noteq> []) parts = []"
    by (simp add: filter_empty_conv)
  with assms(1) show ?thesis by (simp add: FormFile_def)
qed

lemma Status_http_Error [simp]: "Status (http_Error h msg code) = code"
  by (simp add: http_Error_def)

lemma Body_http_Error [simp]: "Body (http_Error h msg code) = msg @ [CHR 0x0A]"
  by (simp add: http_Error_def)

lemma Status_serveError [simp]: "Status (serveError h msg code) = code"
  by (simp add: serveError_def)

text \<open>
  Claim C3. The ingest handler checks its preconditions in this order: a method other than
  POST is answered 405 (Method Not Allowed) whatever else the request holds; a POST that
  fails the credential check is answered 401 (Unauthorized) whatever its form holds; a POST
  that passes the credential check with a multipart form that has no \<open>file\<close> field is
  answered 400 (Bad Request).
\<close>

theorem upload_precondition_order:
  "(Method r \<noteq> ''POST'' \<longrightarrow>
      snd (uploadHander env fs r cfg) =
        http_Error Map.empty ''Method not allowed'' StatusMethodNotAllowed \<and>
      Status (snd (uploadHander env fs r cfg)) = 405) \<and>
   (Method r = ''POST'' \<and> basicAuth r cfg \<noteq> None \<longrightarrow>
      snd (uploadHander env fs r cfg) = http_Error Map.empty ''Unauthorized'' StatusUnauthorized \<and>
      Status (snd (uploadHander env fs r cfg)) = 401) \<and>
   (Method r = ''POST'' \<and> basicAuth r cfg = None \<and>
    (\<exists>parts. MultipartForm r = Some parts \<and> (\<forall>p \<in> set parts. FormName p \<noteq> ''file'')) \<longrightarrow>
      snd (uploadHander env fs r cfg) =
        http_Error Map.empty ''Bad Request: Missing file'' StatusBadRequest \<and>
      Status (snd (uploadHander env fs r cfg)) = 400)"
proof (intro conjI impI)
  assume "Method r \<noteq> ''POST''"
  then show "snd (uploadHander env fs r cfg) =
      http_Error Map.empty ''Method not allowed'' StatusMethodNotAllowed"
    and "Status (snd (uploadHander env fs r cfg)) = 405"
    by (simp_all add: upload_not_post StatusMethodNotAllowed_def)
next
  assume "Method r = ''POST'' \<and> basicAuth r cfg \<noteq> None"
  then show "snd (uploadHander env fs r cfg) =
      http_Error Map.empty ''Unauthorized'' StatusUnauthorized"
    and "Status (snd (uploadHander env fs r cfg)) = 401"
    by (simp_all add: upload_unauthorized StatusUnauthorized_def)
next
  assume a: "Method r = ''POST'' \<and> basicAuth r cfg = None \<and>
    (\<exists>parts. MultipartForm r = Some parts \<and> (\<forall>p \<in> set parts. FormName p \<noteq> ''file''))"
  then have "FormFile r ''file'' = Inl ErrMissingFile"
    using FormFile_lacking_field by blast
  with a show "snd (uploadHander env fs r cfg) =
      http_Error Map.empty ''Bad Request: Missing file'' StatusBadRequest"
    and "Status (snd (uploadHander env fs r cfg)) = 400"
    by (simp_all add: upload_bad_request StatusBadRequest_def)
qed

text \<open>
  A GET with wrong credentials and no \<open>file\<close> field is answered 405; the same request as
  a POST, 401; with the right credentials, 400.
\<close>

theorem upload_precondition_order_witness:
  "Status (snd (uploadHander example_env empty_fs
      (upload_request ''GET'' ''Basic dXNlcjp3cm9uZw=='' ''other'' ''photo.png'' ''hello'') example_config)) = 405 \<and>
   Status (snd (uploadHander example_env empty_fs
      (upload_request ''POST'' ''Basic dXNlcjp3cm9uZw=='' ''other'' ''photo.png'' ''hello'') example_config)) = 401 \<and>
   Status (snd (uploadHander example_env empty_fs
      (upload_request ''POST'' ''Basic dXNlcjpwYXNz'' ''other'' ''photo.png'' ''hello'') example_config)) = 400"
proof -
  have form: "MultipartForm (upload_request m a ''other'' ''photo.png'' ''hello'') =
      Some [\<lparr>FormName = ''other'', FileNameParam = ''photo.png'', Data = ''hello''\<rparr>]" for m a
    by (simp add: upload_request_def)
  have 1: "Status (snd (uploadHander example_env empty_fs
      (upload_request ''GET'' ''Basic dXNlcjp3cm9uZw=='' ''other'' ''photo.png'' ''hello'') example_config)) = 405"
    using upload_precondition_order [of "upload_request ''GET'' ''Basic dXNlcjp3cm9uZw=='' ''other'' ''photo.png'' ''hello''" example_env empty_fs example_config]
    by (simp add: status_defs)
  have 2: "Status (snd (uploadHander example_env empty_fs
      (upload_request ''POST'' ''Basic dXNlcjp3cm9uZw=='' ''other'' ''photo.png'' ''hello'') example_config)) = 401"
    using upload_precondition_order [of "upload_request ''POST'' ''Basic dXNlcjp3cm9uZw=='' ''other'' ''photo.png'' ''hello''" example_env empty_fs example_config]
      basicAuth_example_wrong [of "''POST''" "''other''" "''photo.png''" "''hello''"]
    by (simp add: status_defs)
  have 3: "Status (snd (uploadHander example_env empty_fs
      (upload_request ''POST'' ''Basic dXNlcjpwYXNz'' ''other'' ''photo.png'' ''hello'') example_config)) = 400"
    using upload_precondition_order [of "upload_request ''POST'' ''Basic dXNlcjpwYXNz'' ''other'' ''photo.png'' ''hello''" example_env empty_fs example_config]
      basicAuth_example_ok [of "''POST''" "''other''" "''photo.png''" "''hello''"]
    by (simp add: form status_defs)
  from 1 2 3 show ?thesis by simp
qed

lemma Header_Get_empty [simp]: "Header_Get Map.empty key = []"
  by (simp add: Header_Get_def)

text \<open>
  Claim C4. The credential check succeeds exactly when the Authorization header is there,
  is \<open>Basic\<close> followed by a space and a value that base64-decodes to a user name, a
  colon and a password, the user name being the part before the first colon, and both are
  the configured ones. Whatever makes the check fail (no header, another scheme, malformed
  base64, no colon, other credentials), the ingest handler gives one and the same
  answer, 401 with the body \<open>Unauthorized\<close>, and the file system is as it was: the
  check is a function of the request and the configuration only.
\<close>

theorem credential_check:
  "(basicAuth r cfg = None \<longleftrightarrow>
      (\<exists>authInfo username password.
         Header_Get (Header r) ''Authorization'' = ''Basic '' @ authInfo \<and>
         base64_DecodeString authInfo = Some (username @ '':'' @ password) \<and>
         CHR '':'' \<notin> set username \<and>
         username = Username cfg \<and> password = Password cfg)) \<and>
   (Method r = ''POST'' \<and> basicAuth r cfg \<noteq> None \<longrightarrow>
      uploadHander env fs r cfg =
        (fs, http_Error Map.empty ''Unauthorized'' StatusUnauthorized))"
proof (intro conjI impI)
  show "basicAuth r cfg = None \<longleftrightarrow>
      (\<exists>authInfo username password.
         Header_Get (Header r) ''Authorization'' = ''Basic '' @ authInfo \<and>
         base64_DecodeString authInfo = Some (username @ '':'' @ password) \<and>
         CHR '':'' \<notin> set username \<and>
         username = Username cfg \<and> password = Password cfg)"
    unfolding basicAuth_None_iff by blast
next
  assume "Method r = ''POST'' \<and> basicAuth r cfg \<noteq> None"
  then show "uploadHander env fs r cfg =
      (fs, http_Error Map.empty ''Unauthorized'' StatusUnauthorized)"
    by (simp add: upload_unauthorized)
qed

text \<open>
  The right credentials pass; a request with no Authorization header, with the scheme
  \<open>Bearer\<close>, with a value that is not base64, with \<open>user\<close> alone and with a wrong
  password all get the same answer and leave the empty file system empty.
\<close>

theorem credential_check_witness:
  "basicAuth (upload_request ''POST'' ''Basic dXNlcjpwYXNz'' ''file'' ''photo.png'' ''hello'')
     example_config = None \<and>
   uploadHander example_env empty_fs
     ((upload_request ''POST'' [] ''file'' ''photo.png'' ''hello'')\<lparr>Header := Map.empty\<rparr>)
     example_config = (empty_fs, http_Error Map.empty ''Unauthorized'' 401) \<and>
   uploadHander example_env empty_fs
     (upload_request ''POST'' ''Bearer dXNlcjpwYXNz'' ''file'' ''photo.png'' ''hello'')
     example_config = (empty_fs, http_Error Map.empty ''Unauthorized'' 401) \<and>
   uploadHander example_env empty_fs
     (upload_request ''POST'' ''Basic dXNlcjpwYXN'' ''file'' ''photo.png'' ''hello'')
     example_config = (empty_fs, http_Error Map.empty ''Unauthorized'' 401) \<and>
   uploadHander example_env empty_fs
     (upload_request ''POST'' ''Basic dXNlcg=='' ''file'' ''photo.png'' ''hello'')
     example_config = (empty_fs, http_Error Map.empty ''Unauthorized'' 401) \<and>
   uploadHander example_env empty_fs
     (upload_request ''POST'' ''Basic dXNlcjp3cm9uZw=='' ''file'' ''photo.png'' ''hello'')
     example_config = (empty_fs, http_Error Map.empty ''Unauthorized'' 401)"
proof -
  have cfg: "Username example_config = ''user''" "Password example_config = ''pass''"
    by (simp_all add: example_config_def)
  have ok: "basicAuth (upload_request ''POST'' ''Basic dXNlcjpwYXNz'' ''file'' ''photo.png'' ''hello'')
     example_config = None"
    using credential_check [of "upload_request ''POST'' ''Basic dXNlcjpwYXNz'' ''file'' ''photo.png'' ''hello''" example_config]
    by (simp add: cfg decode_user_pass)
  have missing: "uploadHander example_env empty_fs
     ((upload_request ''POST'' [] ''file'' ''photo.png'' ''hello'')\<lparr>Header := Map.empty\<rparr>)
     example_config = (empty_fs, http_Error Map.empty ''Unauthorized'' 401)"
    using credential_check [of "(upload_request ''POST'' [] ''file'' ''photo.png'' ''hello'')\<lparr>Header := Map.empty\<rparr>" example_config example_env empty_fs]
    by (simp add: upload_request_def status_defs)
  have scheme: "uploadHander example_env empty_fs
     (upload_request ''POST'' ''Bearer dXNlcjpwYXNz'' ''file'' ''photo.png'' ''hello'')
     example_config = (empty_fs, http_Error Map.empty ''Unauthorized'' 401)"
    using credential_check [of "upload_request ''POST'' ''Bearer dXNlcjpwYXNz'' ''file'' ''photo.png'' ''hello''" example_config example_env empty_fs]
    by (simp add: status_defs)
  have malformed: "uploadHander example_env empty_fs
     (upload_request ''POST'' ''Basic dXNlcjpwYXN'' ''file'' ''photo.png'' ''hello'')
     example_config = (empty_fs, http_Error Map.empty ''Unauthorized'' 401)"
    using credential_check [of "upload_request ''POST'' ''Basic dXNlcjpwYXN'' ''file'' ''photo.png'' ''hello''" example_config example_env empty_fs]
    by (simp add: status_defs decode_malformed)
  have nocolon: "uploadHander example_env empty_fs
     (upload_request ''POST'' ''Basic dXNlcg=='' ''file'' ''photo.png'' ''hello'')
     example_config = (empty_fs, http_Error Map.empty ''Unauthorized'' 401)"
    using credential_check [of "upload_request ''POST'' ''Basic dXNlcg=='' ''file'' ''photo.png'' ''hello''" example_config example_env empty_fs]
    by (simp add: status_defs decode_user cfg)
  have wrong: "uploadHander example_env empty_fs
     (upload_request ''POST'' ''Basic dXNlcjp3cm9uZw=='' ''file'' ''photo.png'' ''hello'')
     example_config = (empty_fs, http_Error Map.empty ''Unauthorized'' 401)"
    using credential_check [of "upload_request ''POST'' ''Basic dXNlcjp3cm9uZw=='' ''file'' ''photo.png'' ''hello''" example_config example_env empty_fs]
    by (simp add: status_defs decode_user_wrong cfg)
  from ok missing scheme malformed nocolon wrong show ?thesis by blast
qed

text \<open>
  Claim C9. The scheme is matched by case and by separator: the header value is cut at its
  first space, the check fails when there is no space at all, and it fails with
  \<open>invalid authorization type\<close> when the token before the first space is not exactly
  \<open>Basic\<close>.
\<close>

theorem basic_scheme_strict:
  "(CHR '' '' \<notin> set (Header_Get (Header r) ''Authorization'') \<longrightarrow> basicAuth r cfg \<noteq> None) \<and>
   (Header_Get (Header r) ''Authorization'' = token @ '' '' @ rest \<and> CHR '' '' \<notin> set token \<and>
    token \<noteq> ''Basic'' \<longrightarrow>
      basicAuth r cfg = Some (errors_New ''invalid authorization type''))"
proof (intro conjI impI)
  assume "CHR '' '' \<notin> set (Header_Get (Header r) ''Authorization'')"
  then have "strings_Cut (Header_Get (Header r) ''Authorization'') '' '' =
      (Header_Get (Header r) ''Authorization'', [], False)"
    by (rule strings_Cut_not_found)
  then show "basicAuth r cfg \<noteq> None"
    by (simp add: basicAuth_def Let_def)
next
  assume a: "Header_Get (Header r) ''Authorization'' = token @ '' '' @ rest \<and>
    CHR '' '' \<notin> set token \<and> token \<noteq> ''Basic''"
  then have "strings_Cut (Header_Get (Header r) ''Authorization'') '' '' = (token, rest, True)"
    using strings_Cut_first [of "CHR '' ''" token rest] by simp
  moreover from a have "Header_Get (Header r) ''Authorization'' \<noteq> []" by simp
  moreover from a have "token \<noteq> ''Basic''" by simp
  ultimately show "basicAuth r cfg = Some (errors_New ''invalid authorization type'')"
    by (simp add: basicAuth_def)
qed

text \<open>
  The right credentials under \<open>basic\<close>, under \<open>BASIC\<close> and with no space after
  \<open>Basic\<close> are rejected; under \<open>Basic\<close> and a space they pass.
\<close>

theorem basic_scheme_strict_witness:
  "basicAuth (upload_request ''POST'' ''basic dXNlcjpwYXNz'' ''file'' ''photo.png'' ''hello'')
     example_config = Some (errors_New ''invalid authorization type'') \<and>
   basicAuth (upload_request ''POST'' ''BASIC dXNlcjpwYXNz'' ''file'' ''photo.png'' ''hello'')
     example_config = Some (errors_New ''invalid authorization type'') \<and>
   basicAuth (upload_request ''POST'' ''BasicdXNlcjpwYXNz'' ''file'' ''photo.png'' ''hello'')
     example_config \<noteq> None \<and>
   basicAuth (upload_request ''POST'' ''Basic dXNlcjpwYXNz'' ''file'' ''photo.png'' ''hello'')
     example_config = None"
proof -
  have lower: "basicAuth (upload_request ''POST'' ''basic dXNlcjpwYXNz'' ''file'' ''photo.png'' ''hello'')
     example_config = Some (errors_New ''invalid authorization type'')"
    using basic_scheme_strict [of "upload_request ''POST'' ''basic dXNlcjpwYXNz'' ''file'' ''photo.png'' ''hello''"
        example_config "''basic''" "''dXNlcjpwYXNz''"]
    by simp
  have upper: "basicAuth (upload_request ''POST'' ''BASIC dXNlcjpwYXNz'' ''file'' ''photo.png'' ''hello'')
     example_config = Some (errors_New ''invalid authorization type'')"
    using basic_scheme_strict [of "upload_request ''POST'' ''BASIC dXNlcjpwYXNz'' ''file'' ''photo.png'' ''hello''"
        example_config "''BASIC''" "''dXNlcjpwYXNz''"]
    by simp
  have nospace: "basicAuth (upload_request ''POST'' ''BasicdXNlcjpwYXNz'' ''file'' ''photo.png'' ''hello'')
     example_config \<noteq> None"
    using basic_scheme_strict [of "upload_request ''POST'' ''BasicdXNlcjpwYXNz'' ''file'' ''photo.png'' ''hello''"
        example_config]
    by simp
  from lower upper nospace basicAuth_example_ok show ?thesis by blast
qed

text \<open>
  Claim C10. The decoded credentials are cut at the first colon only. A string made of a
  colon-free user name, a colon and any password is cut into that user name and that
  password, colons of the password included; so with a configured user name that has no
  colon, a header carrying \<open>username:password\<close> passes the check whatever the password
  holds. A decoded string with no colon at all is rejected with \<open>invalid credentials\<close>.
\<close>

theorem credentials_cut_at_first_colon:
  "(CHR '':'' \<notin> set u \<longrightarrow> strings_Cut (u @ '':'' @ p) '':'' = (u, p, True)) \<and>
   (CHR '':'' \<notin> set (Username cfg) \<and>
    Header_Get (Header r) ''Authorization'' = ''Basic '' @ authInfo \<and>
    base64_DecodeString authInfo = Some (Username cfg @ '':'' @ Password cfg) \<longrightarrow>
      basicAuth r cfg = None) \<and>
   (Header_Get (Header r) ''Authorization'' = ''Basic '' @ authInfo \<and>
    base64_DecodeString authInfo = Some decoded \<and> CHR '':'' \<notin> set decoded \<longrightarrow>
      basicAuth r cfg = Some (errors_New ''invalid credentials''))"
proof (intro conjI impI)
  assume "CHR '':'' \<notin> set u"
  then show "strings_Cut (u @ '':'' @ p) '':'' = (u, p, True)"
    using strings_Cut_first [of "CHR '':''" u p] by simp
next
  assume "CHR '':'' \<notin> set (Username cfg) \<and>
    Header_Get (Header r) ''Authorization'' = ''Basic '' @ authInfo \<and>
    base64_DecodeString authInfo = Some (Username cfg @ '':'' @ Password cfg)"
  then show "basicAuth r cfg = None"
    unfolding basicAuth_None_iff by blast
next
  assume a: "Header_Get (Header r) ''Authorization'' = ''Basic '' @ authInfo \<and>
    base64_DecodeString authInfo = Some decoded \<and> CHR '':'' \<notin> set decoded"
  then have c1: "strings_Cut (Header_Get (Header r) ''Authorization'') '' '' =
      (''Basic'', authInfo, True)"
    using strings_Cut_first [of "CHR '' ''" "''Basic''" authInfo] by simp
  from a have c2: "strings_Cut decoded '':'' = (decoded, [], False)"
    by (simp add: strings_Cut_not_found)
  from a have ne: "Header_Get (Header r) ''Authorization'' \<noteq> []" by simp
  from a have d: "base64_DecodeString authInfo = Some decoded" by simp
  show "basicAuth r cfg = Some (errors_New ''invalid credentials'')"
    by (simp add: basicAuth_def c1 c2 ne d)
qed

text \<open>
  With the user \<open>u\<close> and the password \<open>p:q\<close> configured, the header that carries
  \<open>u:p:q\<close> passes; the header that carries \<open>user\<close> alone is rejected.
\<close>

theorem credentials_cut_at_first_colon_witness:
  "strings_Cut ''u:p:q'' '':'' = (''u'', ''p:q'', True) \<and>
   basicAuth (upload_request ''POST'' ''Basic dTpwOnE='' ''file'' ''photo.png'' ''hello'')
     (example_config\<lparr>Username := ''u'', Password := ''p:q''\<rparr>) = None \<and>
   basicAuth (upload_request ''POST'' ''Basic dXNlcg=='' ''file'' ''photo.png'' ''hello'')
     example_config = Some (errors_New ''invalid credentials'')"
proof -
  have cut: "strings_Cut ''u:p:q'' '':'' = (''u'', ''p:q'', True)"
    using credentials_cut_at_first_colon [of "''u''" "''p:q''"] by simp
  have colons: "basicAuth (upload_request ''POST'' ''Basic dTpwOnE='' ''file'' ''photo.png'' ''hello'')
     (example_config\<lparr>Username := ''u'', Password := ''p:q''\<rparr>) = None"
    using credentials_cut_at_first_colon [of _ _ "example_config\<lparr>Username := ''u'', Password := ''p:q''\<rparr>"
        "upload_request ''POST'' ''Basic dTpwOnE='' ''file'' ''photo.png'' ''hello''" "''dTpwOnE=''"]
    by (simp add: decode_u_p_q)
  have nocolon: "basicAuth (upload_request ''POST'' ''Basic dXNlcg=='' ''file'' ''photo.png'' ''hello'')
     example_config = Some (errors_New ''invalid credentials'')"
    using credentials_cut_at_first_colon [of _ _ example_config
        "upload_request ''POST'' ''Basic dXNlcg=='' ''file'' ''photo.png'' ''hello''" "''dXNlcg==''" "''user''"]
    by (simp add: decode_user)
  from cut colons nocolon show ?thesis by blast
qed

text \<open>
  Claim C7. An ingest request that fails the method check is answered 405, one that fails
  the credential check is answered 401, and both leave the file system exactly as it was:
  no file and no directory is created.
\<close>

theorem rejected_upload_leaves_storage:
  "(Method r \<noteq> ''POST'' \<longrightarrow>
      fst (uploadHander env fs r cfg) = fs \<and> Status (snd (uploadHander env fs r cfg)) = 405) \<and>
   (Method r = ''POST'' \<and> basicAuth r cfg \<noteq> None \<longrightarrow>
      fst (uploadHander env fs r cfg) = fs \<and> Status (snd (uploadHander env fs r cfg)) = 401)"
  by (simp add: upload_not_post upload_unauthorized status_defs)

text \<open>
  A GET with the right credentials and a file, a POST with no Authorization header and a
  POST with a wrong password leave the empty file system empty.
\<close>

theorem rejected_upload_leaves_storage_witness:
  "fst (uploadHander example_env empty_fs
     (upload_request ''GET'' ''Basic dXNlcjpwYXNz'' ''file'' ''photo.png'' ''hello'')
     example_config) = empty_fs \<and>
   Status (snd (uploadHander example_env empty_fs
     (upload_request ''GET'' ''Basic dXNlcjpwYXNz'' ''file'' ''photo.png'' ''hello'')
     example_config)) = 405 \<and>
   fst (uploadHander example_env empty_fs
     ((upload_request ''POST'' [] ''file'' ''photo.png'' ''hello'')\<lparr>Header := Map.empty\<rparr>)
     example_config) = empty_fs \<and>
   Status (snd (uploadHander example_env empty_fs
     ((upload_request ''POST'' [] ''file'' ''photo.png'' ''hello'')\<lparr>Header := Map.empty\<rparr>)
     example_config)) = 401 \<and>
   fst (uploadHander example_env empty_fs
     (upload_request ''POST'' ''Basic dXNlcjp3cm9uZw=='' ''file'' ''photo.png'' ''hello'')
     example_config) = empty_fs \<and>
   Status (snd (uploadHander example_env empty_fs
     (upload_request ''POST'' ''Basic dXNlcjp3cm9uZw=='' ''file'' ''photo.png'' ''hello'')
     example_config)) = 401"
proof -
  have missing: "basicAuth ((upload_request ''POST'' [] ''file'' ''photo.png'' ''hello'')\<lparr>Header := Map.empty\<rparr>)
      example_config \<noteq> None"
    by (simp add: basicAuth_def upload_request_def)
  have get: "fst (uploadHander example_env empty_fs
       (upload_request ''GET'' ''Basic dXNlcjpwYXNz'' ''file'' ''photo.png'' ''hello'')
       example_config) = empty_fs \<and>
     Status (snd (uploadHander example_env empty_fs
       (upload_request ''GET'' ''Basic dXNlcjpwYXNz'' ''file'' ''photo.png'' ''hello'')
       example_config)) = 405"
    using rejected_upload_leaves_storage [of "upload_request ''GET'' ''Basic dXNlcjpwYXNz'' ''file'' ''photo.png'' ''hello''"
        example_env empty_fs example_config]
    by simp
  have nohdr: "fst (uploadHander example_env empty_fs
       ((upload_request ''POST'' [] ''file'' ''photo.png'' ''hello'')\<lparr>Header := Map.empty\<rparr>)
       example_config) = empty_fs \<and>
     Status (snd (uploadHander example_env empty_fs
       ((upload_request ''POST'' [] ''file'' ''photo.png'' ''hello'')\<lparr>Header := Map.empty\<rparr>)
       example_config)) = 401"
    using rejected_upload_leaves_storage [of "(upload_request ''POST'' [] ''file'' ''photo.png'' ''hello'')\<lparr>Header := Map.empty\<rparr>"
        example_env empty_fs example_config] missing
    by (simp add: upload_request_def)
  have wrong: "fst (uploadHander example_env empty_fs
       (upload_request ''POST'' ''Basic dXNlcjp3cm9uZw=='' ''file'' ''photo.png'' ''hello'')
       example_config) = empty_fs \<and>
     Status (snd (uploadHander example_env empty_fs
       (upload_request ''POST'' ''Basic dXNlcjp3cm9uZw=='' ''file'' ''photo.png'' ''hello'')
       example_config)) = 401"
    using rejected_upload_leaves_storage [of "upload_request ''POST'' ''Basic dXNlcjp3cm9uZw=='' ''file'' ''photo.png'' ''hello''"
        example_env empty_fs example_config]
      basicAuth_example_wrong [of "''POST''" "''file''" "''photo.png''" "''hello''"]
    by simp
  from get nohdr wrong show ?thesis by blast
qed

section \<open>Retrieval\<close>

lemma getHandler_not_exist:
  assumes "os_Stat fs (filepath_Join [UploadDir cfg, map_index (Vars r) ''year'',
             map_index (Vars r) ''month'', map_index (Vars r) ''day'',
             map_index (Vars r) ''filename'']) = Inl ENOENT"
  shows "getHandler env fs r cfg = http_NotFound Map.empty"
  using assms by (simp add: getHandler_def Let_def)

lemma getHandler_serves:
  assumes "os_Stat fs (filepath_Join [UploadDir cfg, map_index (Vars r) ''year'',
             map_index (Vars r) ''month'', map_index (Vars r) ''day'',
             map_index (Vars r) ''filename'']) \<noteq> Inl ENOENT"
  shows "getHandler env fs r cfg =
     http_ServeFile env fs
       [''Content-Type'' \<mapsto>
          (if mime_TypeByExtension env (filepath_Ext (map_index (Vars r) ''filename'')) = []
           then ''application/octet-stream''
           else mime_TypeByExtension env (filepath_Ext (map_index (Vars r) ''filename''))),
        ''Cache-Control'' \<mapsto> ''public, max-age=315360000'',
        ''Content-Disposition'' \<mapsto>
          ''inline; filename='' @ [CHR 0x22] @ map_index (Vars r) ''filename'' @ [CHR 0x22]]
       r
       (filepath_Join [UploadDir cfg, map_index (Vars r) ''year'',
          map_index (Vars r) ''month'', map_index (Vars r) ''day'',
          map_index (Vars r) ''filename''])"
proof (cases "os_Stat fs (filepath_Join [UploadDir cfg, map_index (Vars r) ''year'',
             map_index (Vars r) ''month'', map_index (Vars r) ''day'',
             map_index (Vars r) ''filename''])")
  case (Inl e)
  with assms have "e \<noteq> ENOENT" by simp
  with Inl show ?thesis by (simp add: getHandler_def Let_def)
next
  case (Inr n)
  then show ?thesis by (simp add: getHandler_def Let_def)
qed

lemma getHandler_serves_vars:
  assumes "map_index (Vars r) ''year'' = year" and "map_index (Vars r) ''month'' = month"
    and "map_index (Vars r) ''day'' = day" and "map_index (Vars r) ''filename'' = filename"
    and "os_Stat fs (filepath_Join [UploadDir cfg, year, month, day, filename]) \<noteq> Inl ENOENT"
  shows "getHandler env fs r cfg =
     http_ServeFile env fs
       [''Content-Type'' \<mapsto>
          (if mime_TypeByExtension env (filepath_Ext filename) = []
           then ''application/octet-stream''
           else mime_TypeByExtension env (filepath_Ext filename)),
        ''Cache-Control'' \<mapsto> ''public, max-age=315360000'',
        ''Content-Disposition'' \<mapsto> ''inline; filename='' @ [CHR 0x22] @ filename @ [CHR 0x22]]
       r (filepath_Join [UploadDir cfg, year, month, day, filename])"
proof -
  have "os_Stat fs (filepath_Join [UploadDir cfg, map_index (Vars r) ''year'',
             map_index (Vars r) ''month'', map_index (Vars r) ''day'',
             map_index (Vars r) ''filename'']) \<noteq> Inl ENOENT"
    using assms by simp
  from getHandler_serves [OF this, of env] show ?thesis
    unfolding assms(1-4) .
qed

lemma getHandler_serves_path:
  assumes "map_index (Vars r) ''year'' = year" and "map_index (Vars r) ''month'' = month"
    and "map_index (Vars r) ''day'' = day" and "map_index (Vars r) ''filename'' = filename"
    and "os_Stat fs (filepath_Join [UploadDir cfg, year, month, day, filename]) \<noteq> Inl ENOENT"
  shows "\<exists>h. getHandler env fs r cfg =
     http_ServeFile env fs h r (filepath_Join [UploadDir cfg, year, month, day, filename])"
  using getHandler_serves_vars [OF assms, of env] by blast

lemma os_Stat_error: "(os_Stat fs name = Inl e) = (fs name = Inl e)"
  by (simp add: os_Stat_def split: sum.splits prod.splits)

lemma os_Stat_found: "fs name = Inr (readable, n) \<Longrightarrow> os_Stat fs name = Inr n"
  by (simp add: os_Stat_def)

lemma os_Open_error: "fs name = Inl e \<Longrightarrow> os_Open fs name = Inl e"
  by (simp add: os_Open_def)

lemma os_Open_readable: "fs name = Inr (True, n) \<Longrightarrow> os_Open fs name = Inr n"
  by (simp add: os_Open_def)

lemma os_Open_unreadable: "fs name = Inr (False, n) \<Longrightarrow> os_Open fs name = Inl EACCES"
  by (simp add: os_Open_def)

lemma os_Open_found: "os_Open fs name = Inr n \<Longrightarrow> fs name = Inr (True, n)"
  by (auto simp: os_Open_def split: sum.splits prod.splits if_splits)

lemma mapOpenError_walk_find:
  "mapOpenError_walk fs e qs =
     (case find (\<lambda>q. \<not> is_Dir (fs q)) qs of
        Some q \<Rightarrow> if is_File (fs q) then ENOENT else e
      | None \<Rightarrow> e)"
  by (induction qs)
    (auto simp: os_Stat_def is_Dir_def is_File_def split: sum.splits prod.splits node.splits)

lemma ServeFile_dotdot:
  "containsDotDot (URL_Path r) \<Longrightarrow>
     http_ServeFile env fs h r name = serveError h ''invalid URL path'' StatusBadRequest"
  by (simp add: http_ServeFile_def)

lemma ServeFile_index:
  "\<not> containsDotDot (URL_Path r) \<Longrightarrow> strings_HasSuffix (URL_Path r) ''/index.html'' \<Longrightarrow>
     http_ServeFile env fs h r name = localRedirect h r ''./''"
  by (simp add: http_ServeFile_def)

lemma ServeFile_error:
  assumes "\<not> containsDotDot (URL_Path r)" and "\<not> strings_HasSuffix (URL_Path r) ''/index.html''"
    and "os_Open fs name = Inl e"
  shows "http_ServeFile env fs h r name =
     serveError h (fst (toHTTPError (mapOpenError fs e name))) (snd (toHTTPError (mapOpenError fs e name)))"
  using assms by (simp add: http_ServeFile_def Dir_Open_def split: prod.splits)

lemma ServeFile_file:
  assumes "\<not> containsDotDot (URL_Path r)" and "\<not> strings_HasSuffix (URL_Path r) ''/index.html''"
    and "os_Open fs name = Inr (File content)"
  shows "http_ServeFile env fs h r name = serveContent env h r content"
  using assms by (simp add: http_ServeFile_def Dir_Open_def)

lemma serveContent_plain:
  "plain_request r \<Longrightarrow>
     serveContent env h r content =
       \<lparr>Status = StatusOK, Headers = h, Body = (if Method r = ''HEAD'' then [] else content)\<rparr>"
  by (simp add: serveContent_def)

lemma Status_localRedirect: "Status (localRedirect h r p) = StatusMovedPermanently"
  by (simp add: localRedirect_def)

lemma Headers_localRedirect: "k \<noteq> ''Location'' \<Longrightarrow> Headers (localRedirect h r p) k = h k"
  by (simp add: localRedirect_def)

lemma ServeFile_error_status:
  assumes "fs name = Inl e" and "e \<noteq> ENOENT"
  shows "Status (http_ServeFile env fs h r name) =
     (if containsDotDot (URL_Path r) then 400
      else if strings_HasSuffix (URL_Path r) ''/index.html'' then 301
      else if e = EACCES then 403
      else (case find (\<lambda>q. \<not> is_Dir (fs q)) (path_prefixes name) of
              Some q \<Rightarrow> if is_File (fs q) then 404 else 500
            | None \<Rightarrow> 500))"
proof (cases "containsDotDot (URL_Path r)")
  case True
  then show ?thesis by (simp add: ServeFile_dotdot Status_serveError status_defs)
next
  case False
  note nodots = this
  show ?thesis
  proof (cases "strings_HasSuffix (URL_Path r) ''/index.html''")
    case True
    with nodots show ?thesis by (simp add: ServeFile_index Status_localRedirect status_defs)
  next
    case False
    from assms(1) have "os_Open fs name = Inl e" by (rule os_Open_error)
    with nodots False have "Status (http_ServeFile env fs h r name) =
        snd (toHTTPError (mapOpenError fs e name))"
      by (simp add: ServeFile_error Status_serveError)
    with nodots False assms(2) show ?thesis
      by (simp add: mapOpenError_def mapOpenError_walk_find toHTTPError_def status_defs
          split: option.splits)
  qed
qed

lemma Vars_get_request [simp]:
  "map_index (Vars (get_request prefix year month day filename)) ''year'' = year"
  "map_index (Vars (get_request prefix year month day filename)) ''month'' = month"
  "map_index (Vars (get_request prefix year month day filename)) ''day'' = day"
  "map_index (Vars (get_request prefix year month day filename)) ''filename'' = filename"
  by (simp_all add: get_request_def map_index_def)

lemma plain_get_request [simp]: "plain_request (get_request prefix year month day filename)"
  by (simp add: plain_request_def get_request_def precondition_headers_def Header_Get_def)

lemma Method_get_request [simp]: "Method (get_request prefix year month day filename) = ''GET''"
  by (simp add: get_request_def)

lemma URL_Path_get_request:
  "URL_Path (get_request prefix year month day filename) =
     ''/'' @ prefix @ ''/'' @ year @ ''/'' @ month @ ''/'' @ day @ ''/'' @ filename"
  by (simp add: get_request_def)

lemma conditional_get_request_fields:
  "map_index (Vars (conditional_get_request prefix year month day filename)) ''year'' = year"
  "map_index (Vars (conditional_get_request prefix year month day filename)) ''month'' = month"
  "map_index (Vars (conditional_get_request prefix year month day filename)) ''day'' = day"
  "map_index (Vars (conditional_get_request prefix year month day filename)) ''filename'' = filename"
  "Method (conditional_get_request prefix year month day filename) = ''GET''"
  "URL_Path (conditional_get_request prefix year month day filename) =
     ''/'' @ prefix @ ''/'' @ year @ ''/'' @ month @ ''/'' @ day @ ''/'' @ filename"
  "\<not> plain_request (conditional_get_request prefix year month day filename)"
  "Header_Get (Header (conditional_get_request prefix year month day filename)) ''If-Match'' = []"
  "Header_Get (Header (conditional_get_request prefix year month day filename))
     ''If-Unmodified-Since'' = []"
  "Header_Get (Header (conditional_get_request prefix year month day filename))
     ''If-None-Match'' = ''*''"
  by (simp_all add: conditional_get_request_def get_request_def map_index_def plain_request_def
      precondition_headers_def Header_Get_def)

lemmas path_eval = filepath_Join_def filepath_Clean_def IsPathSeparator_def

lemma join_example_1:
  "filepath_Join [''/data'', ''abc'', ''de'', ''f'', ''g.txt''] = ''/data/abc/de/f/g.txt''"
  by (simp add: path_eval)

lemma join_example_2:
  "filepath_Join [''/data'', ''2024'', ''03'', ''05'', ''a.png''] = ''/data/2024/03/05/a.png''"
  by (simp add: path_eval)

lemma join_example_3:
  "filepath_Join [''/data'', ''2024'', ''03'', ''05'', ''index.html''] =
     ''/data/2024/03/05/index.html''"
  by (simp add: path_eval)

lemma join_example_4:
  "filepath_Join [''/data'', ''2024'', ''03'', ''05'', dotdot_name] =
     ''/data/2024/03/05/'' @ dotdot_name"
  by (simp add: path_eval dotdot_name_def)

lemma url_example_1:
  "\<not> containsDotDot ''/files/abc/de/f/g.txt''" "\<not> strings_HasSuffix ''/files/abc/de/f/g.txt'' ''/index.html''"
  by (simp_all add: containsDotDot_def strings_HasSuffix_def strings_HasPrefix_def)

lemma url_example_2:
  "\<not> containsDotDot ''/files/2024/03/05/a.png''" "\<not> strings_HasSuffix ''/files/2024/03/05/a.png'' ''/index.html''"
  by (simp_all add: containsDotDot_def strings_HasSuffix_def strings_HasPrefix_def)

lemma url_example_3:
  "\<not> containsDotDot ''/files/2024/03/05/index.html''"
  "strings_HasSuffix ''/files/2024/03/05/index.html'' ''/index.html''"
  by (simp_all add: containsDotDot_def strings_HasSuffix_def strings_HasPrefix_def)

lemma url_example_4:
  "containsDotDot (''/files/2024/03/05/'' @ dotdot_name)"
  by (simp add: containsDotDot_def strings_HasPrefix_def strings_FieldsFunc_def isSlashRune_def
      dotdot_name_def)

lemma fs_example_lookup:
  "os_Stat (empty_fs(name := Inl e)) name = Inl e"
  "os_Stat (empty_fs(name := Inr (readable, n))) name = Inr n"
  "os_Stat empty_fs name = Inl ENOENT"
  by (simp_all add: os_Stat_def empty_fs_def)

lemma example_prefixes_file:
  "path_prefixes ''/data/2024/03/05/a.png'' =
     [''/data'', ''/data/2024'', ''/data/2024/03'', ''/data/2024/03/05'',
      ''/data/2024/03/05/a.png'']"
  by (simp add: path_prefixes_def upt_rec)




text \<open>
  Claim C6. The handler looks at the file system in one place, the path that
  \<^verbatim>\<open>filepath.Join\<close> makes of the upload root and the four route variables as they
  come: the variables are any strings, nothing checks that year, month and day are
  numbers. When nothing is at that path the answer is 404; otherwise what is at that path
  is served.
\<close>

theorem retrieval_path_unvalidated:
  assumes "map_index (Vars r) ''year'' = year" and "map_index (Vars r) ''month'' = month"
    and "map_index (Vars r) ''day'' = day" and "map_index (Vars r) ''filename'' = filename"
  shows
    "(os_Stat fs (filepath_Join [UploadDir cfg, year, month, day, filename]) = Inl ENOENT \<longrightarrow>
        getHandler env fs r cfg = http_NotFound Map.empty \<and>
        Status (getHandler env fs r cfg) = 404) \<and>
     (os_Stat fs (filepath_Join [UploadDir cfg, year, month, day, filename]) \<noteq> Inl ENOENT \<longrightarrow>
        (\<exists>h. getHandler env fs r cfg =
           http_ServeFile env fs h r (filepath_Join [UploadDir cfg, year, month, day, filename])))"
proof (intro conjI impI)
  assume "os_Stat fs (filepath_Join [UploadDir cfg, year, month, day, filename]) = Inl ENOENT"
  then show g: "getHandler env fs r cfg = http_NotFound Map.empty"
    using getHandler_not_exist [of fs cfg r env] assms by simp
  then show "Status (getHandler env fs r cfg) = 404"
    by (simp add: http_NotFound_def status_defs)
next
  assume "os_Stat fs (filepath_Join [UploadDir cfg, year, month, day, filename]) \<noteq> Inl ENOENT"
  with assms show "\<exists>h. getHandler env fs r cfg =
      http_ServeFile env fs h r (filepath_Join [UploadDir cfg, year, month, day, filename])"
    by (rule getHandler_serves_path)
qed

text \<open>
  The segments \<open>abc\<close>, \<open>de\<close>, \<open>f\<close> are joined as they are; the retrieval is
  answered 404 in the empty file system and 200 with the file's bytes when a readable file
  is at the joined path.
\<close>

theorem retrieval_path_unvalidated_witness:
  "filepath_Join [UploadDir example_config, ''abc'', ''de'', ''f'', ''g.txt''] = ''/data/abc/de/f/g.txt'' \<and>
   Status (getHandler example_env empty_fs
      (get_request ''files'' ''abc'' ''de'' ''f'' ''g.txt'') example_config) = 404 \<and>
   Status (getHandler example_env (empty_fs(''/data/abc/de/f/g.txt'' := Inr (True, File ''text'')))
      (get_request ''files'' ''abc'' ''de'' ''f'' ''g.txt'') example_config) = 200 \<and>
   Body (getHandler example_env (empty_fs(''/data/abc/de/f/g.txt'' := Inr (True, File ''text'')))
      (get_request ''files'' ''abc'' ''de'' ''f'' ''g.txt'') example_config) = ''text''"
proof -
  let ?fs = "empty_fs(''/data/abc/de/f/g.txt'' := Inr (True, File ''text''))"
  let ?r = "get_request ''files'' ''abc'' ''de'' ''f'' ''g.txt''"
  have up: "UploadDir example_config = ''/data''" by (simp add: example_config_def)
  have path: "filepath_Join [UploadDir example_config, ''abc'', ''de'', ''f'', ''g.txt''] =
      ''/data/abc/de/f/g.txt''"
    by (simp add: up join_example_1)
  have absent: "Status (getHandler example_env empty_fs ?r example_config) = 404"
    using retrieval_path_unvalidated [of ?r
        "''abc''" "''de''" "''f''" "''g.txt''" empty_fs example_config example_env]
    by (simp add: path fs_example_lookup http_NotFound_def status_defs)
  have "\<exists>h. getHandler example_env ?fs ?r example_config =
      http_ServeFile example_env ?fs h ?r ''/data/abc/de/f/g.txt''"
    using retrieval_path_unvalidated [of ?r
        "''abc''" "''de''" "''f''" "''g.txt''" ?fs example_config example_env]
    by (simp add: path fs_example_lookup)
  then obtain h where "getHandler example_env ?fs ?r example_config =
      http_ServeFile example_env ?fs h ?r ''/data/abc/de/f/g.txt''" ..
  moreover have "os_Open ?fs ''/data/abc/de/f/g.txt'' = Inr (File ''text'')"
    by (simp add: os_Open_def)
  ultimately have present: "getHandler example_env ?fs ?r example_config =
      \<lparr>Status = StatusOK, Headers = h, Body = ''text''\<rparr>"
    by (simp add: ServeFile_file [where content = "''text''"] serveContent_plain
        URL_Path_get_request url_example_1)
  from path absent present show ?thesis by (simp add: status_defs)
qed




section \<open>Names the ingest handler builds\<close>

lemma digit_char_digit: "d < 10 \<Longrightarrow> digit_char d \<in> set ''0123456789''"
  unfolding digit_char_def by (rule nth_mem) simp

lemma set_fmt_nat: "set (fmt_nat n) \<subseteq> set ''0123456789''"
proof (induction n rule: fmt_nat.induct)
  case (1 n)
  show ?case
  proof (cases "n < 10")
    case True
    then show ?thesis
      using digit_char_digit [of n] by (subst fmt_nat.simps) simp
  next
    case False
    then have "set (fmt_nat (n div 10)) \<subseteq> set ''0123456789''" by (rule 1)
    moreover have "digit_char (n mod 10) \<in> set ''0123456789''"
      by (rule digit_char_digit) simp
    ultimately show ?thesis
      using False by (subst fmt_nat.simps) simp
  qed
qed

lemma fmt_nat_not_Nil: "fmt_nat n \<noteq> []"
  by (subst fmt_nat.simps) simp

lemma fmt_nat_chars: "CHR ''/'' \<notin> set (fmt_nat n)" "CHR ''.'' \<notin> set (fmt_nat n)"
  using set_fmt_nat [of n] by auto

lemma fmt_d_chars: "CHR ''/'' \<notin> set (fmt_d i)" "CHR ''.'' \<notin> set (fmt_d i)"
  by (simp_all add: fmt_d_def fmt_nat_chars)

lemma fmt_02d_chars: "CHR ''/'' \<notin> set (fmt_02d i)" "CHR ''.'' \<notin> set (fmt_02d i)"
  by (simp_all add: fmt_02d_def fmt_nat_chars)

lemma fmt_d_not_Nil: "fmt_d i \<noteq> []"
  by (simp add: fmt_d_def fmt_nat_not_Nil)

lemma fmt_02d_not_Nil: "fmt_02d i \<noteq> []"
  by (simp add: fmt_02d_def fmt_nat_not_Nil)

lemma length_fmt_nat_1: "n < 10 \<Longrightarrow> length (fmt_nat n) = 1"
  by (subst fmt_nat.simps) simp

lemma length_fmt_nat_2: "10 \<le> n \<Longrightarrow> n < 100 \<Longrightarrow> length (fmt_nat n) = 2"
  by (subst fmt_nat.simps) (simp add: length_fmt_nat_1)

lemma length_fmt_02d: "0 \<le> i \<Longrightarrow> i < 100 \<Longrightarrow> length (fmt_02d i) = 2"
  by (auto simp: fmt_02d_def length_fmt_nat_1 length_fmt_nat_2)

lemma hi_nibble: "unat (drop_bit 4 (v :: 8 word)) < 16"
proof -
  have "unat v < 256" using unsigned_less [of v, where ?'a = nat] by simp
  then show ?thesis by (simp add: unat_drop_bit_eq drop_bit_eq_div unat_div)
qed

lemma lo_nibble: "unat ((v :: 8 word) AND 0x0f) < 16"
proof -
  have "v AND 0x0f = take_bit 4 v"
    by (simp add: take_bit_eq_mask mask_eq_exp_minus_1)
  then show ?thesis by (simp add: unsigned_take_bit_eq take_bit_eq_mod unat_mod)
qed

lemma hextable_nth: "k < 16 \<Longrightarrow> hextable ! k \<in> set hextable"
  by (rule nth_mem) (simp add: hextable_def)

lemma set_hex_byte: "set (hex_byte v) \<subseteq> set hextable"
  by (simp add: hex_byte_def hextable_nth hi_nibble lo_nibble)

lemma set_hex_Encode: "set (hex_Encode src) \<subseteq> set hextable"
  using set_hex_byte by (auto simp: hex_Encode_def)

lemma length_hex_Encode: "length (hex_Encode src) = 2 * length src"
  by (induction src) (simp_all add: hex_Encode_def hex_byte_def)

lemma length_UUID_bytes: "length (UUID_bytes u) = 16"
  by (simp add: UUID_bytes_def)

lemma length_UUID_String: "length (UUID_String u) = 36"
  by (simp add: UUID_String_def Let_def length_hex_Encode length_UUID_bytes)

lemma set_UUID_String: "set (UUID_String u) \<subseteq> set hextable \<union> {CHR ''-''}"
proof -
  have h: "set (hex_Encode src) \<subseteq> insert CHR ''-'' (set hextable)" for src
    using set_hex_Encode [of src] by blast
  show ?thesis
    unfolding UUID_String_def Let_def by (simp add: h)
qed

lemma UUID_String_chars:
  "CHR ''/'' \<notin> set (UUID_String u)" "CHR ''.'' \<notin> set (UUID_String u)"
  using set_UUID_String [of u] by (auto simp: hextable_def)

lemma ext_scan_shape:
  "ext_scan xs passed = [] \<or>
   (\<exists>t. ext_scan xs passed = CHR ''.'' # t @ passed \<and> CHR ''.'' \<notin> set t \<and> CHR ''/'' \<notin> set t)"
proof (induction xs arbitrary: passed)
  case Nil
  then show ?case by simp
next
  case (Cons c xs)
  show ?case
  proof (cases "IsPathSeparator c \<or> c = CHR ''.''")
    case True
    then show ?thesis by auto
  next
    case False
    from Cons [of "c # passed"] show ?thesis
    proof
      assume "ext_scan xs (c # passed) = []"
      with False show ?thesis by simp
    next
      assume "\<exists>t. ext_scan xs (c # passed) = CHR ''.'' # t @ c # passed \<and>
        CHR ''.'' \<notin> set t \<and> CHR ''/'' \<notin> set t"
      then obtain t where t: "ext_scan xs (c # passed) = CHR ''.'' # t @ c # passed"
        "CHR ''.'' \<notin> set t" "CHR ''/'' \<notin> set t" by blast
      with False have "ext_scan (c # xs) passed = CHR ''.'' # (t @ [c]) @ passed \<and>
        CHR ''.'' \<notin> set (t @ [c]) \<and> CHR ''/'' \<notin> set (t @ [c])"
        by (auto simp: IsPathSeparator_def)
      then show ?thesis by blast
    qed
  qed
qed

lemma filepath_Ext_shape:
  "filepath_Ext path = [] \<or>
   (\<exists>t. filepath_Ext path = CHR ''.'' # t \<and> CHR ''.'' \<notin> set t \<and> CHR ''/'' \<notin> set t)"
  using ext_scan_shape [of "rev path" "[]"] by (simp add: filepath_Ext_def)

lemma ext_scan_no_separator:
  "CHR ''/'' \<notin> set xs \<Longrightarrow>
     ext_scan xs passed =
       (if CHR ''.'' \<in> set xs then CHR ''.'' # rev (takeWhile (\<lambda>c. c \<noteq> CHR ''.'') xs) @ passed
        else [])"
  by (induction xs arbitrary: passed) (auto simp: IsPathSeparator_def)

lemma filepath_Ext_no_separator:
  "CHR ''/'' \<notin> set path \<Longrightarrow> filepath_Ext path = from_last_dot path"
  by (simp add: filepath_Ext_def from_last_dot_def ext_scan_no_separator)

lemma filepath_Base_cases:
  "filepath_Base path = ''/'' \<or> CHR ''/'' \<notin> set (filepath_Base path)"
  by (auto simp: filepath_Base_def Let_def IsPathSeparator_def dest: set_takeWhileD)

lemma filepath_Ext_Base: "filepath_Ext (filepath_Base name) = from_last_dot (filepath_Base name)"
proof -
  have "filepath_Ext ''/'' = from_last_dot ''/''"
    by (simp add: filepath_Ext_def from_last_dot_def IsPathSeparator_def)
  then show ?thesis
    using filepath_Base_cases [of name] filepath_Ext_no_separator [of "filepath_Base name"]
    by auto
qed

section \<open>Paths and URL paths\<close>

lemma split_when_not_Nil: "split_when f s \<noteq> []"
  by (induction s) (auto split: list.splits)

lemma split_when_append:
  "f c \<Longrightarrow> split_when f (a @ c # b) = split_when f a @ split_when f b"
proof (induction a)
  case Nil
  then show ?case by simp
next
  case (Cons x a)
  then show ?case
    using split_when_not_Nil [of f a] by (cases "split_when f a") auto
qed

lemma split_when_count:
  "w \<in> set (split_when f s) \<Longrightarrow> length (filter P w) \<le> length (filter P s)"
proof (induction s arbitrary: w)
  case Nil
  then show ?case by simp
next
  case (Cons c s)
  show ?case
  proof (cases "f c")
    case True
    with Cons.prems have "w = [] \<or> w \<in> set (split_when f s)" by simp
    then show ?thesis
    proof
      assume "w = []" then show ?thesis by simp
    next
      assume "w \<in> set (split_when f s)"
      then have "length (filter P w) \<le> length (filter P s)" by (rule Cons.IH)
      then show ?thesis by simp
    qed
  next
    case False
    obtain w0 ws where sp: "split_when f s = w0 # ws"
      using split_when_not_Nil [of f s] by (cases "split_when f s") auto
    with False Cons.prems have "w = c # w0 \<or> w \<in> set ws" by simp
    then show ?thesis
    proof
      assume w: "w = c # w0"
      have "length (filter P w0) \<le> length (filter P s)"
        by (rule Cons.IH) (simp add: sp)
      with w show ?thesis by simp
    next
      assume "w \<in> set ws"
      then have "length (filter P w) \<le> length (filter P s)"
        by (intro Cons.IH) (simp add: sp)
      then show ?thesis by simp
    qed
  qed
qed

lemma FieldsFunc_append:
  "f c \<Longrightarrow> strings_FieldsFunc (a @ c # b) f = strings_FieldsFunc a f @ strings_FieldsFunc b f"
  by (simp add: strings_FieldsFunc_def split_when_append)

lemma dotdot_field_needs_two_dots:
  assumes "''..'' \<in> set (strings_FieldsFunc s f)"
  shows "2 \<le> length (filter (\<lambda>c. c = CHR ''.'') s)"
proof -
  from assms have "''..'' \<in> set (split_when f s)"
    by (simp add: strings_FieldsFunc_def)
  from split_when_count [OF this, of "\<lambda>c. c = CHR ''.''"] show ?thesis by simp
qed

lemma no_dot_no_dotdot_field:
  "CHR ''.'' \<notin> set s \<Longrightarrow> ''..'' \<notin> set (strings_FieldsFunc s f)"
proof
  assume nodot: "CHR ''.'' \<notin> set s" and field: "''..'' \<in> set (strings_FieldsFunc s f)"
  from nodot have "filter (\<lambda>c. c = CHR ''.'') s = []"
    by (induction s) auto
  with dotdot_field_needs_two_dots [OF field] show False by simp
qed

lemma seg_split:
  "c \<notin> set a \<Longrightarrow> c \<notin> set a' \<Longrightarrow> a @ c # b = a' @ c # b' \<Longrightarrow> a = a' \<and> b = b'"
proof (induction a arbitrary: a')
  case Nil
  then show ?case by (cases a') auto
next
  case (Cons x a)
  then show ?case by (cases a') auto
qed

lemma last_seg:
  assumes "c \<notin> set t" and "c \<notin> set t'" and "x @ c # t = z @ c # t'"
  shows "t = t'"
proof -
  from assms(3) have "rev (x @ c # t) = rev (z @ c # t')" by simp
  then have "rev t @ c # rev x = rev t' @ c # rev z" by simp
  with assms(1,2) have "rev t = rev t'"
    using seg_split [of c "rev t" "rev t'" "rev x" "rev z"] by simp
  then show ?thesis by simp
qed

lemma HasSuffix_decomp: "strings_HasSuffix s suf \<Longrightarrow> \<exists>z. s = z @ suf"
  unfolding strings_HasSuffix_def
  by (metis append_take_drop_id)

lemma not_index_html:
  assumes "CHR ''/'' \<notin> set name" and "name \<noteq> ''index.html''"
  shows "\<not> strings_HasSuffix (x @ ''/'' @ name) ''/index.html''"
proof
  assume "strings_HasSuffix (x @ ''/'' @ name) ''/index.html''"
  then obtain z where "x @ ''/'' @ name = z @ ''/index.html''"
    using HasSuffix_decomp by blast
  then have "x @ CHR ''/'' # name = z @ CHR ''/'' # ''index.html''" by simp
  from last_seg [OF assms(1) _ this] have "name = ''index.html''" by simp
  with assms(2) show False by simp
qed

lemma filepath_Join_segments:
  "a \<noteq> [] \<Longrightarrow>
     filepath_Join [root, a @ ''/'' @ b @ ''/'' @ c @ ''/'' @ d] = filepath_Join [root, a, b, c, d]"
  by (cases "root = []") (simp_all add: filepath_Join_def)

section \<open>The examples, evaluated\<close>

lemma example_date:
  "fmt_d 2024 = ''2024''" "fmt_02d 3 = ''03''" "fmt_02d 5 = ''05''"
  by (simp_all add: fmt_d_def fmt_02d_def fmt_nat.simps digit_char_def)

lemma example_uuid:
  "UUID_String 0x0123456789abcdef0123456789abcdef = ''01234567-89ab-cdef-0123-456789abcdef''"
  by (simp add: UUID_String_def UUID_bytes_def hex_Encode_def hex_byte_def hextable_def upt_rec)

lemma example_prefixes:
  "path_prefixes ''/data/2024/03/05'' =
     [''/data'', ''/data/2024'', ''/data/2024/03'', ''/data/2024/03/05'']"
  by (simp add: path_prefixes_def upt_rec)

lemma example_ext:
  "filepath_Ext (filepath_Base ''photo.png'') = ''.png''"
  "filepath_Ext (filepath_Base ''a.b/c'') = []"
  "filepath_Ext (filepath_Base ''README'') = []"
  "from_last_dot ''a.b/c'' = ''.b/c''"
  by (simp_all add: filepath_Ext_def filepath_Base_def IsPathSeparator_def from_last_dot_def)

lemma example_paths:
  "filepath_Join [''/data'', ''2024/03/05''] = ''/data/2024/03/05''"
  "filepath_Join [''/data'', ''2024/03/05/01234567-89ab-cdef-0123-456789abcdef.png''] =
     ''/data/2024/03/05/01234567-89ab-cdef-0123-456789abcdef.png''"
  "filepath_Join [''/data'', ''2024/03/05/01234567-89ab-cdef-0123-456789abcdef''] =
     ''/data/2024/03/05/01234567-89ab-cdef-0123-456789abcdef''"
  by (simp_all add: path_eval)

section \<open>Ingest\<close>

lemma foldl_mkdir_other: "p \<notin> set qs \<Longrightarrow> foldl (mkdir env) fs qs p = fs p"
  by (induction qs arbitrary: fs) (auto simp: mkdir_def)

lemma foldl_mkdir_is_File: "is_File (foldl (mkdir env) fs qs p) = is_File (fs p)"
  by (induction qs arbitrary: fs) (auto simp: mkdir_def is_File_def)

lemma os_MkdirAll_is_File:
  "os_MkdirAll env fs path = (e, fs') \<Longrightarrow> is_File (fs' p) = is_File (fs p)"
  by (auto simp: os_MkdirAll_def foldl_mkdir_is_File split: if_splits option.splits prod.splits)

lemma os_Create_creates:
  "os_Create env fs name = (None, fs') \<Longrightarrow>
     fs' name = Inr (is_File (fs name) \<or> umask_keeps_read env, File [])"
  by (auto simp: os_Create_def is_File_def
      split: sum.splits prod.splits node.splits if_splits option.splits)

lemma io_Copy_stores:
  "io_Copy env fs dst src = (None, fs') \<Longrightarrow> fs dst = Inr (readable, n) \<Longrightarrow>
     fs' dst = Inr (readable, File src)"
  by (auto simp: io_Copy_def write_file_def split: option.splits prod.splits)

lemma upload_stored:
  assumes ok: "Status (snd (uploadHander env fs r cfg)) = StatusOK"
  shows "\<exists>content header.
     FormFile r ''file'' = Inr (content, header) \<and>
     snd (uploadHander env fs r cfg) =
       \<lparr>Status = StatusOK, Headers = Map.empty,
        Body = AccessPrefix cfg @ ''/'' @ fmt_d (Year (time_Now env)) @ ''/'' @
               fmt_02d (Month (time_Now env)) @ ''/'' @ fmt_02d (Day (time_Now env)) @ ''/'' @
               UUID_String (uuid_New env) @ filepath_Ext (Filename header)\<rparr> \<and>
     fst (uploadHander env fs r cfg)
       (filepath_Join [UploadDir cfg,
          fmt_d (Year (time_Now env)) @ ''/'' @ fmt_02d (Month (time_Now env)) @ ''/'' @
          fmt_02d (Day (time_Now env)) @ ''/'' @ UUID_String (uuid_New env) @
          filepath_Ext (Filename header)]) =
       Inr (is_File (fs (filepath_Join [UploadDir cfg,
              fmt_d (Year (time_Now env)) @ ''/'' @ fmt_02d (Month (time_Now env)) @ ''/'' @
              fmt_02d (Day (time_Now env)) @ ''/'' @ UUID_String (uuid_New env) @
              filepath_Ext (Filename header)])) \<or> umask_keeps_read env,
            File content)"
proof -
  have m: "Method r = ''POST''"
  proof (rule ccontr)
    assume "Method r \<noteq> ''POST''"
    with ok show False by (simp add: upload_not_post status_defs)
  qed
  have a: "basicAuth r cfg = None"
  proof (rule ccontr)
    assume "basicAuth r cfg \<noteq> None"
    with ok m show False by (simp add: upload_unauthorized status_defs)
  qed
  obtain content header where ff: "FormFile r ''file'' = Inr (content, header)"
  proof (cases "FormFile r ''file''")
    case (Inl e)
    with ok m a have False by (simp add: upload_bad_request status_defs)
    then show ?thesis ..
  next
    case (Inr p)
    with that show ?thesis by (cases p) auto
  qed
  let ?timePath = "fmt_d (Year (time_Now env)) @ ''/'' @ fmt_02d (Month (time_Now env)) @ ''/'' @
      fmt_02d (Day (time_Now env))"
  let ?name = "?timePath @ ''/'' @ UUID_String (uuid_New env) @ filepath_Ext (Filename header)"
  let ?dirPath = "filepath_Join [UploadDir cfg, ?timePath]"
  let ?filePath = "filepath_Join [UploadDir cfg, ?name]"
  obtain e1 fs1 where mk: "os_MkdirAll env fs ?dirPath = (e1, fs1)"
    by (cases "os_MkdirAll env fs ?dirPath") auto
  have e1: "e1 = None"
  proof (rule ccontr)
    assume "e1 \<noteq> None"
    then obtain err where "e1 = Some err" by auto
    with ok m a ff mk show False
      by (simp add: uploadHander_def Let_def status_defs)
  qed
  obtain e2 fs2 where cr: "os_Create env fs1 ?filePath = (e2, fs2)"
    by (cases "os_Create env fs1 ?filePath") auto
  have e2: "e2 = None"
  proof (rule ccontr)
    assume "e2 \<noteq> None"
    then obtain err where "e2 = Some err" by auto
    with ok m a ff mk e1 cr show False
      by (simp add: uploadHander_def Let_def status_defs)
  qed
  obtain e3 fs3 where cp: "io_Copy env fs2 ?filePath content = (e3, fs3)"
    by (cases "io_Copy env fs2 ?filePath content") auto
  have e3: "e3 = None"
  proof (rule ccontr)
    assume "e3 \<noteq> None"
    then obtain err where "e3 = Some err" by auto
    with ok m a ff mk e1 cr e2 cp show False
      by (simp add: uploadHander_def Let_def status_defs)
  qed
  have res: "uploadHander env fs r cfg =
      (fs3, \<lparr>Status = StatusOK, Headers = Map.empty, Body = AccessPrefix cfg @ ''/'' @ ?name\<rparr>)"
    using m a ff mk e1 cr e2 cp e3 by (simp add: uploadHander_def Let_def)
  from mk have "is_File (fs1 ?filePath) = is_File (fs ?filePath)"
    by (rule os_MkdirAll_is_File)
  with cr e2 have "fs2 ?filePath = Inr (is_File (fs ?filePath) \<or> umask_keeps_read env, File [])"
    by (simp add: os_Create_creates)
  with cp e3 have "fs3 ?filePath =
      Inr (is_File (fs ?filePath) \<or> umask_keeps_read env, File content)"
    by (simp add: io_Copy_stores)
  with res ff show ?thesis by simp
qed

lemma upload_succeeds:
  assumes "Method r = ''POST''" and "basicAuth r cfg = None"
    and "FormFile r ''file'' = Inr (content, header)"
    and "timePath = fmt_d (Year (time_Now env)) @ ''/'' @ fmt_02d (Month (time_Now env)) @ ''/'' @
      fmt_02d (Day (time_Now env))"
    and "\<forall>q \<in> set (path_prefixes (filepath_Join [UploadDir cfg, timePath])). \<not> is_File (fs q)"
    and "filepath_Join [UploadDir cfg,
           timePath @ ''/'' @ UUID_String (uuid_New env) @ filepath_Ext (Filename header)]
         \<notin> set (path_prefixes (filepath_Join [UploadDir cfg, timePath]))"
    and "fs (filepath_Join [UploadDir cfg,
           timePath @ ''/'' @ UUID_String (uuid_New env) @ filepath_Ext (Filename header)])
         = Inl ENOENT"
    and "MkdirAll_fails env = None" and "Create_fails env = None" and "Copy_fails env = None"
  shows "Status (snd (uploadHander env fs r cfg)) = StatusOK"
proof -
  let ?dirPath = "filepath_Join [UploadDir cfg, timePath]"
  let ?filePath = "filepath_Join [UploadDir cfg,
           timePath @ ''/'' @ UUID_String (uuid_New env) @ filepath_Ext (Filename header)]"
  have mk: "os_MkdirAll env fs ?dirPath = (None, foldl (mkdir env) fs (path_prefixes ?dirPath))"
    using assms(5,8) by (simp add: os_MkdirAll_def)
  have "foldl (mkdir env) fs (path_prefixes ?dirPath) ?filePath = fs ?filePath"
    using assms(6) by (rule foldl_mkdir_other)
  with assms(7) have "foldl (mkdir env) fs (path_prefixes ?dirPath) ?filePath = Inl ENOENT"
    by simp
  then have cr: "os_Create env (foldl (mkdir env) fs (path_prefixes ?dirPath)) ?filePath =
      (None, (foldl (mkdir env) fs (path_prefixes ?dirPath))
               (?filePath := Inr (umask_keeps_read env, File [])))"
    using assms(9) by (simp add: os_Create_def)
  have cp: "io_Copy env fsx ?filePath content = (None, write_file fsx ?filePath content)" for fsx
    using assms(10) by (simp add: io_Copy_def)
  show ?thesis
    using assms(1-3) mk cr cp
    unfolding assms(4)
    by (simp add: uploadHander_def Let_def)
qed

lemma FormFile_part:
  assumes "FormFile r key = Inr (content, header)"
  shows "\<exists>parts p rest. MultipartForm r = Some parts \<and>
     filter (\<lambda>q. FormName q = key \<and> FileNameParam q \<noteq> []) parts = p # rest \<and>
     content = Data p \<and> Filename header = filepath_Base (FileNameParam p)"
  using assms by (auto simp: FormFile_def split: option.splits list.splits)

lemma digit_char_zero:
  assumes "d < 10" and "digit_char d = CHR ''0''"
  shows "d = 0"
proof -
  have "(''0123456789'' ! d = ''0123456789'' ! 0) = (d = 0)"
    by (rule nth_eq_iff_index_eq) (use assms(1) in simp_all)
  with assms(2) show ?thesis by (simp add: digit_char_def)
qed

lemma fmt_nat_no_leading_zero: "0 < n \<Longrightarrow> hd (fmt_nat n) \<noteq> CHR ''0''"
proof (induction n rule: fmt_nat.induct)
  case (1 n)
  show ?case
  proof (cases "n < 10")
    case True
    with "1.prems" digit_char_zero [of n] show ?thesis
      by (subst fmt_nat.simps) auto
  next
    case False
    then have "0 < n div 10" by simp
    with False have "hd (fmt_nat (n div 10)) \<noteq> CHR ''0''" by (intro "1.IH") simp_all
    with False show ?thesis
      by (subst fmt_nat.simps) (simp add: fmt_nat_not_Nil)
  qed
qed

text \<open>
  Claim C2, as the code has it. After a successful ingest the response is 200 with the
  body \<open>{accessPrefix}/{relativePath}\<close> and no header set by the handler, and the
  bytes of the first file of the form field \<open>file\<close> are stored at the upload root
  joined with the same relative path, in a regular file that the server may read if a
  file was there before or the umask keeps the read bit. The relative path is
  \<open>{year}/{month}/{day}/{randomID}{extension}\<close>: the year printed as it is (no leading
  zero), month and day printed with two digits, the random identifier the 36 characters
  of the UUID the environment gave, and the extension everything from the last dot onward
  of the base name of the client-supplied filename (its last path element), empty when
  that base name has no dot.
\<close>

theorem upload_relative_path:
  assumes "Status (snd (uploadHander env fs r cfg)) = 200"
  shows "\<exists>parts p rest relativePath.
     MultipartForm r = Some parts \<and>
     filter (\<lambda>q. FormName q = ''file'' \<and> FileNameParam q \<noteq> []) parts = p # rest \<and>
     relativePath =
       fmt_d (Year (time_Now env)) @ ''/'' @ fmt_02d (Month (time_Now env)) @ ''/'' @
       fmt_02d (Day (time_Now env)) @ ''/'' @ UUID_String (uuid_New env) @
       from_last_dot (filepath_Base (FileNameParam p)) \<and>
     snd (uploadHander env fs r cfg) =
       \<lparr>Status = 200, Headers = Map.empty, Body = AccessPrefix cfg @ ''/'' @ relativePath\<rparr> \<and>
     fst (uploadHander env fs r cfg) (filepath_Join [UploadDir cfg, relativePath]) =
       Inr (is_File (fs (filepath_Join [UploadDir cfg, relativePath])) \<or> umask_keeps_read env,
            File (Data p)) \<and>
     (1 \<le> Month (time_Now env) \<and> Month (time_Now env) \<le> 12 \<longrightarrow>
        length (fmt_02d (Month (time_Now env))) = 2) \<and>
     (1 \<le> Day (time_Now env) \<and> Day (time_Now env) \<le> 31 \<longrightarrow>
        length (fmt_02d (Day (time_Now env))) = 2) \<and>
     (0 < Year (time_Now env) \<longrightarrow> hd (fmt_d (Year (time_Now env))) \<noteq> CHR ''0'') \<and>
     length (UUID_String (uuid_New env)) = 36"
proof -
  from assms have "Status (snd (uploadHander env fs r cfg)) = StatusOK"
    by (simp add: status_defs)
  from upload_stored [OF this] obtain content header where
    ff: "FormFile r ''file'' = Inr (content, header)" and
    resp: "snd (uploadHander env fs r cfg) =
       \<lparr>Status = StatusOK, Headers = Map.empty,
        Body = AccessPrefix cfg @ ''/'' @ fmt_d (Year (time_Now env)) @ ''/'' @
               fmt_02d (Month (time_Now env)) @ ''/'' @ fmt_02d (Day (time_Now env)) @ ''/'' @
               UUID_String (uuid_New env) @ filepath_Ext (Filename header)\<rparr>" and
    stored: "fst (uploadHander env fs r cfg)
       (filepath_Join [UploadDir cfg,
          fmt_d (Year (time_Now env)) @ ''/'' @ fmt_02d (Month (time_Now env)) @ ''/'' @
          fmt_02d (Day (time_Now env)) @ ''/'' @ UUID_String (uuid_New env) @
          filepath_Ext (Filename header)]) =
       Inr (is_File (fs (filepath_Join [UploadDir cfg,
              fmt_d (Year (time_Now env)) @ ''/'' @ fmt_02d (Month (time_Now env)) @ ''/'' @
              fmt_02d (Day (time_Now env)) @ ''/'' @ UUID_String (uuid_New env) @
              filepath_Ext (Filename header)])) \<or> umask_keeps_read env,
            File content)"
    by blast
  from FormFile_part [OF ff] obtain parts p rest where
    parts: "MultipartForm r = Some parts" and
    first: "filter (\<lambda>q. FormName q = ''file'' \<and> FileNameParam q \<noteq> []) parts = p # rest" and
    content: "content = Data p" and name: "Filename header = filepath_Base (FileNameParam p)"
    by blast
  have ext: "filepath_Ext (Filename header) = from_last_dot (filepath_Base (FileNameParam p))"
    unfolding name by (rule filepath_Ext_Base)
  have month: "1 \<le> Month (time_Now env) \<and> Month (time_Now env) \<le> 12 \<longrightarrow>
      length (fmt_02d (Month (time_Now env))) = 2"
    by (simp add: length_fmt_02d)
  have day: "1 \<le> Day (time_Now env) \<and> Day (time_Now env) \<le> 31 \<longrightarrow>
      length (fmt_02d (Day (time_Now env))) = 2"
    by (simp add: length_fmt_02d)
  have year: "0 < Year (time_Now env) \<longrightarrow> hd (fmt_d (Year (time_Now env))) \<noteq> CHR ''0''"
    by (simp add: fmt_d_def fmt_nat_no_leading_zero)
  from resp have resp': "snd (uploadHander env fs r cfg) =
       \<lparr>Status = 200, Headers = Map.empty,
        Body = AccessPrefix cfg @ ''/'' @ (fmt_d (Year (time_Now env)) @ ''/'' @
               fmt_02d (Month (time_Now env)) @ ''/'' @ fmt_02d (Day (time_Now env)) @ ''/'' @
               UUID_String (uuid_New env) @ from_last_dot (filepath_Base (FileNameParam p)))\<rparr>"
    unfolding ext by (simp add: status_defs)
  from stored have stored': "fst (uploadHander env fs r cfg)
       (filepath_Join [UploadDir cfg,
          fmt_d (Year (time_Now env)) @ ''/'' @ fmt_02d (Month (time_Now env)) @ ''/'' @
          fmt_02d (Day (time_Now env)) @ ''/'' @ UUID_String (uuid_New env) @
          from_last_dot (filepath_Base (FileNameParam p))]) =
       Inr (is_File (fs (filepath_Join [UploadDir cfg,
              fmt_d (Year (time_Now env)) @ ''/'' @ fmt_02d (Month (time_Now env)) @ ''/'' @
              fmt_02d (Day (time_Now env)) @ ''/'' @ UUID_String (uuid_New env) @
              from_last_dot (filepath_Base (FileNameParam p))])) \<or> umask_keeps_read env,
            File (Data p))"
    unfolding ext content .
  from parts first resp' stored' month day year length_UUID_String [of "uuid_New env"]
  show ?thesis by blast
qed

lemma FormFile_upload_request:
  "fname \<noteq> [] \<Longrightarrow>
     FormFile (upload_request m a ''file'' fname content) ''file'' =
       Inr (content, \<lparr>Filename = filepath_Base fname\<rparr>)"
  by (simp add: FormFile_def upload_request_def)

lemma example_env_fields:
  "time_Now example_env = \<lparr>Year = 2024, Month = 3, Day = 5\<rparr>"
  "uuid_New example_env = 0x0123456789abcdef0123456789abcdef"
  "MkdirAll_fails example_env = None" "Create_fails example_env = None"
  "Copy_fails example_env = None" "umask_keeps_read example_env"
  by (simp_all add: example_env_def)

lemma basicAuth_AccessPrefix: "basicAuth r (cfg\<lparr>AccessPrefix := p\<rparr>) = basicAuth r cfg"
  by (simp add: basicAuth_def Let_def split: prod.splits option.splits)

lemma is_File_empty_fs: "\<not> is_File (empty_fs name)"
  by (simp add: is_File_def empty_fs_def)

lemma example_config_fields:
  "UploadDir example_config = ''/data''" "AccessPrefix example_config = ''files''"
  by (simp_all add: example_config_def)

lemma example_upload_ok:
  "Status (snd (uploadHander (example_env\<lparr>umask_keeps_read := u\<rparr>) empty_fs
     (upload_request ''POST'' ''Basic dXNlcjpwYXNz'' ''file'' ''photo.png'' ''hello'')
     (example_config\<lparr>AccessPrefix := p\<rparr>))) = StatusOK"
proof (rule upload_succeeds [where timePath = "''2024/03/05''" and content = "''hello''"
      and header = "\<lparr>Filename = filepath_Base ''photo.png''\<rparr>"])
  show "FormFile (upload_request ''POST'' ''Basic dXNlcjpwYXNz'' ''file'' ''photo.png'' ''hello'') ''file'' =
      Inr (''hello'', \<lparr>Filename = filepath_Base ''photo.png''\<rparr>)"
    by (simp add: FormFile_upload_request)
  show "filepath_Join [UploadDir (example_config\<lparr>AccessPrefix := p\<rparr>),
      ''2024/03/05'' @ ''/'' @ UUID_String (uuid_New (example_env\<lparr>umask_keeps_read := u\<rparr>)) @
      filepath_Ext (Filename \<lparr>Filename = filepath_Base ''photo.png''\<rparr>)]
      \<notin> set (path_prefixes
            (filepath_Join [UploadDir (example_config\<lparr>AccessPrefix := p\<rparr>), ''2024/03/05'']))"
    by (simp add: example_config_fields example_env_fields example_uuid example_ext example_paths
        example_prefixes)
qed (simp_all add: basicAuth_AccessPrefix basicAuth_example_ok example_env_fields example_date
    example_config_fields example_paths example_prefixes is_File_def empty_fs_def)

lemma example_records:
  "example_env\<lparr>umask_keeps_read := True\<rparr> = example_env"
  "example_config\<lparr>AccessPrefix := ''files''\<rparr> = example_config"
  by (simp_all add: example_env_def example_config_def)

lemma example_upload_png_ok:
  "Status (snd (uploadHander example_env empty_fs
     (upload_request ''POST'' ''Basic dXNlcjpwYXNz'' ''file'' ''photo.png'' ''hello'')
     example_config)) = StatusOK"
  using example_upload_ok [of True "''files''"] by (simp only: example_records)

lemma example_upload_slash_ok:
  "Status (snd (uploadHander example_env empty_fs
     (upload_request ''POST'' ''Basic dXNlcjpwYXNz'' ''file'' ''a.b/c'' ''hello'')
     example_config)) = StatusOK"
proof (rule upload_succeeds [where timePath = "''2024/03/05''" and content = "''hello''"
      and header = "\<lparr>Filename = filepath_Base ''a.b/c''\<rparr>"])
  show "FormFile (upload_request ''POST'' ''Basic dXNlcjpwYXNz'' ''file'' ''a.b/c'' ''hello'') ''file'' =
      Inr (''hello'', \<lparr>Filename = filepath_Base ''a.b/c''\<rparr>)"
    by (simp add: FormFile_upload_request)
  show "filepath_Join [UploadDir example_config,
      ''2024/03/05'' @ ''/'' @ UUID_String (uuid_New example_env) @
      filepath_Ext (Filename \<lparr>Filename = filepath_Base ''a.b/c''\<rparr>)]
      \<notin> set (path_prefixes (filepath_Join [UploadDir example_config, ''2024/03/05'']))"
    by (simp add: example_config_fields example_env_fields example_uuid example_ext example_paths
        example_prefixes)
qed (simp_all add: basicAuth_example_ok example_env_fields example_date example_config_fields
    example_paths example_prefixes is_File_def empty_fs_def)

text \<open>
  \<open>photo.png\<close> uploaded on 2024-03-05 with the UUID of the example is answered
  \<open>files/2024/03/05/01234567-89ab-cdef-0123-456789abcdef.png\<close> and stored under
  \<open>/data\<close> at the same relative path.
\<close>

theorem upload_relative_path_witness:
  "Status (snd (uploadHander example_env empty_fs
     (upload_request ''POST'' ''Basic dXNlcjpwYXNz'' ''file'' ''photo.png'' ''hello'')
     example_config)) = 200 \<and>
   Body (snd (uploadHander example_env empty_fs
     (upload_request ''POST'' ''Basic dXNlcjpwYXNz'' ''file'' ''photo.png'' ''hello'')
     example_config)) = ''files/2024/03/05/01234567-89ab-cdef-0123-456789abcdef.png'' \<and>
   fst (uploadHander example_env empty_fs
     (upload_request ''POST'' ''Basic dXNlcjpwYXNz'' ''file'' ''photo.png'' ''hello'')
     example_config) ''/data/2024/03/05/01234567-89ab-cdef-0123-456789abcdef.png'' =
     Inr (True, File ''hello'')"
proof -
  let ?r = "upload_request ''POST'' ''Basic dXNlcjpwYXNz'' ''file'' ''photo.png'' ''hello''"
  have ok: "Status (snd (uploadHander example_env empty_fs ?r example_config)) = 200"
    using example_upload_png_ok by (simp add: status_defs)
  from upload_relative_path [OF ok] obtain parts p rest relativePath where
    parts: "MultipartForm ?r = Some parts" and
    first: "filter (\<lambda>q. FormName q = ''file'' \<and> FileNameParam q \<noteq> []) parts = p # rest" and
    rel: "relativePath =
       fmt_d (Year (time_Now example_env)) @ ''/'' @ fmt_02d (Month (time_Now example_env)) @ ''/'' @
       fmt_02d (Day (time_Now example_env)) @ ''/'' @ UUID_String (uuid_New example_env) @
       from_last_dot (filepath_Base (FileNameParam p))" and
    resp: "snd (uploadHander example_env empty_fs ?r example_config) =
       \<lparr>Status = 200, Headers = Map.empty,
        Body = AccessPrefix example_config @ ''/'' @ relativePath\<rparr>" and
    stored: "fst (uploadHander example_env empty_fs ?r example_config)
       (filepath_Join [UploadDir example_config, relativePath]) =
       Inr (is_File (empty_fs (filepath_Join [UploadDir example_config, relativePath])) \<or>
            umask_keeps_read example_env, File (Data p))"
    by blast
  from parts have "parts = [\<lparr>FormName = ''file'', FileNameParam = ''photo.png'', Data = ''hello''\<rparr>]"
    by (simp add: upload_request_def)
  with first have p: "p = \<lparr>FormName = ''file'', FileNameParam = ''photo.png'', Data = ''hello''\<rparr>"
    by simp
  have "from_last_dot (filepath_Base ''photo.png'') = ''.png''"
    by (simp add: from_last_dot_def filepath_Base_def IsPathSeparator_def)
  with rel p have rel': "relativePath = ''2024/03/05/01234567-89ab-cdef-0123-456789abcdef.png''"
    by (simp add: example_env_fields example_date example_uuid)
  from resp have "Body (snd (uploadHander example_env empty_fs ?r example_config)) =
      ''files/2024/03/05/01234567-89ab-cdef-0123-456789abcdef.png''"
    by (simp add: rel' example_config_fields)
  moreover from stored have "fst (uploadHander example_env empty_fs ?r example_config)
      ''/data/2024/03/05/01234567-89ab-cdef-0123-456789abcdef.png'' = Inr (True, File ''hello'')"
    by (simp add: rel' p example_config_fields example_env_fields example_paths)
  ultimately show ?thesis using ok by simp
qed

text \<open>
  Claim C2 as stated takes the extension from the last dot of the client-supplied filename.
  For the filename \<open>a.b/c\<close> that would be \<open>.b/c\<close>; the stored name has no
  extension, since the last path element \<open>c\<close> has no dot.
\<close>

theorem extension_of_name_with_slash:
  "Status (snd (uploadHander example_env empty_fs
     (upload_request ''POST'' ''Basic dXNlcjpwYXNz'' ''file'' ''a.b/c'' ''hello'')
     example_config)) = 200 \<and>
   Body (snd (uploadHander example_env empty_fs
     (upload_request ''POST'' ''Basic dXNlcjpwYXNz'' ''file'' ''a.b/c'' ''hello'')
     example_config)) = ''files/2024/03/05/01234567-89ab-cdef-0123-456789abcdef'' \<and>
   from_last_dot ''a.b/c'' = ''.b/c'' \<and>
   Body (snd (uploadHander example_env empty_fs
     (upload_request ''POST'' ''Basic dXNlcjpwYXNz'' ''file'' ''a.b/c'' ''hello'')
     example_config)) \<noteq>
     ''files/2024/03/05/01234567-89ab-cdef-0123-456789abcdef'' @ from_last_dot ''a.b/c''"
proof -
  let ?r = "upload_request ''POST'' ''Basic dXNlcjpwYXNz'' ''file'' ''a.b/c'' ''hello''"
  from upload_stored [OF example_upload_slash_ok] obtain content header where
    ff: "FormFile ?r ''file'' = Inr (content, header)" and
    resp: "snd (uploadHander example_env empty_fs ?r example_config) =
       \<lparr>Status = StatusOK, Headers = Map.empty,
        Body = AccessPrefix example_config @ ''/'' @ fmt_d (Year (time_Now example_env)) @ ''/'' @
               fmt_02d (Month (time_Now example_env)) @ ''/'' @
               fmt_02d (Day (time_Now example_env)) @ ''/'' @
               UUID_String (uuid_New example_env) @ filepath_Ext (Filename header)\<rparr>"
    by blast
  from ff have "header = \<lparr>Filename = filepath_Base ''a.b/c''\<rparr>"
    by (simp add: FormFile_upload_request)
  with resp have body: "Body (snd (uploadHander example_env empty_fs ?r example_config)) =
      ''files/2024/03/05/01234567-89ab-cdef-0123-456789abcdef''"
    by (simp add: example_config_fields example_env_fields example_date example_uuid example_ext)
  from example_upload_slash_ok
  have "Status (snd (uploadHander example_env empty_fs ?r example_config)) = 200"
    by (simp add: status_defs)
  with body show ?thesis by (simp add: example_ext)
qed

section \<open>Ingest, then retrieval\<close>

lemma FieldsFunc_url:
  "strings_FieldsFunc (''/'' @ p @ ''/'' @ y @ ''/'' @ m @ ''/'' @ d @ ''/'' @ f) isSlashRune =
     strings_FieldsFunc p isSlashRune @ strings_FieldsFunc y isSlashRune @
     strings_FieldsFunc m isSlashRune @ strings_FieldsFunc d isSlashRune @
     strings_FieldsFunc f isSlashRune"
proof -
  have sl: "isSlashRune CHR ''/''" by (simp add: isSlashRune_def)
  have step: "strings_FieldsFunc (a @ ''/'' @ b) isSlashRune =
      strings_FieldsFunc a isSlashRune @ strings_FieldsFunc b isSlashRune" for a b
    using FieldsFunc_append [of isSlashRune "CHR ''/''" a b] sl by simp
  have "strings_FieldsFunc (''/'' @ p @ ''/'' @ y @ ''/'' @ m @ ''/'' @ d @ ''/'' @ f) isSlashRune =
      strings_FieldsFunc [] isSlashRune @
      strings_FieldsFunc (p @ ''/'' @ y @ ''/'' @ m @ ''/'' @ d @ ''/'' @ f) isSlashRune"
    using step [of "[]" "p @ ''/'' @ y @ ''/'' @ m @ ''/'' @ d @ ''/'' @ f"] by simp
  also have "strings_FieldsFunc [] isSlashRune = []"
    by (simp add: strings_FieldsFunc_def)
  finally show ?thesis by (simp only: step append_Nil)
qed

lemma filter_absent: "c \<notin> set s \<Longrightarrow> filter (\<lambda>x. x = c) s = []"
  by (induction s) auto

lemma stored_name_properties:
  "CHR ''/'' \<notin> set (UUID_String u @ filepath_Ext name)"
  "UUID_String u @ filepath_Ext name \<noteq> ''index.html''"
  "''..'' \<notin> set (strings_FieldsFunc (UUID_String u @ filepath_Ext name) f)"
proof -
  from filepath_Ext_shape [of name]
  have shape: "CHR ''/'' \<notin> set (filepath_Ext name) \<and>
      length (filter (\<lambda>c. c = CHR ''.'') (filepath_Ext name)) \<le> 1"
  proof
    assume "filepath_Ext name = []" then show ?thesis by simp
  next
    assume "\<exists>t. filepath_Ext name = CHR ''.'' # t \<and> CHR ''.'' \<notin> set t \<and> CHR ''/'' \<notin> set t"
    then obtain t where t: "filepath_Ext name = CHR ''.'' # t" "CHR ''.'' \<notin> set t"
      "CHR ''/'' \<notin> set t" by blast
    from t(2) have "filter (\<lambda>c. c = CHR ''.'') t = []" by (rule filter_absent)
    with t show ?thesis by simp
  qed
  then show "CHR ''/'' \<notin> set (UUID_String u @ filepath_Ext name)"
    by (simp add: UUID_String_chars)
  show "UUID_String u @ filepath_Ext name \<noteq> ''index.html''"
  proof
    assume "UUID_String u @ filepath_Ext name = ''index.html''"
    then have "length (UUID_String u @ filepath_Ext name) = length ''index.html''"
      by (rule arg_cong)
    then show False by (simp add: length_UUID_String)
  qed
  have "filter (\<lambda>c. c = CHR ''.'') (UUID_String u) = []"
    using UUID_String_chars(2) [of u] by (rule filter_absent)
  with shape have "length (filter (\<lambda>c. c = CHR ''.'') (UUID_String u @ filepath_Ext name)) \<le> 1"
    by simp
  then show "''..'' \<notin> set (strings_FieldsFunc (UUID_String u @ filepath_Ext name) f)"
    using dotdot_field_needs_two_dots [of "UUID_String u @ filepath_Ext name" f] by auto
qed


lemma example_upload_result:
  "Body (snd (uploadHander (example_env\<lparr>umask_keeps_read := u\<rparr>) empty_fs
     (upload_request ''POST'' ''Basic dXNlcjpwYXNz'' ''file'' ''photo.png'' ''hello'')
     (example_config\<lparr>AccessPrefix := p\<rparr>))) =
     p @ ''/2024/03/05/01234567-89ab-cdef-0123-456789abcdef.png''"
  "fst (uploadHander (example_env\<lparr>umask_keeps_read := u\<rparr>) empty_fs
     (upload_request ''POST'' ''Basic dXNlcjpwYXNz'' ''file'' ''photo.png'' ''hello'')
     (example_config\<lparr>AccessPrefix := p\<rparr>))
     ''/data/2024/03/05/01234567-89ab-cdef-0123-456789abcdef.png'' = Inr (u, File ''hello'')"
proof -
  let ?r = "upload_request ''POST'' ''Basic dXNlcjpwYXNz'' ''file'' ''photo.png'' ''hello''"
  let ?env = "example_env\<lparr>umask_keeps_read := u\<rparr>"
  let ?cfg = "example_config\<lparr>AccessPrefix := p\<rparr>"
  from upload_stored [OF example_upload_ok, of u p] obtain content header where
    ff: "FormFile ?r ''file'' = Inr (content, header)" and
    resp: "snd (uploadHander ?env empty_fs ?r ?cfg) =
       \<lparr>Status = StatusOK, Headers = Map.empty,
        Body = AccessPrefix ?cfg @ ''/'' @ fmt_d (Year (time_Now ?env)) @ ''/'' @
               fmt_02d (Month (time_Now ?env)) @ ''/'' @
               fmt_02d (Day (time_Now ?env)) @ ''/'' @
               UUID_String (uuid_New ?env) @ filepath_Ext (Filename header)\<rparr>" and
    stored: "fst (uploadHander ?env empty_fs ?r ?cfg)
       (filepath_Join [UploadDir ?cfg,
          fmt_d (Year (time_Now ?env)) @ ''/'' @ fmt_02d (Month (time_Now ?env)) @ ''/'' @
          fmt_02d (Day (time_Now ?env)) @ ''/'' @ UUID_String (uuid_New ?env) @
          filepath_Ext (Filename header)]) =
       Inr (is_File (empty_fs (filepath_Join [UploadDir ?cfg,
              fmt_d (Year (time_Now ?env)) @ ''/'' @ fmt_02d (Month (time_Now ?env)) @ ''/'' @
              fmt_02d (Day (time_Now ?env)) @ ''/'' @ UUID_String (uuid_New ?env) @
              filepath_Ext (Filename header)])) \<or> umask_keeps_read ?env,
            File content)"
    by blast
  from ff have h: "header = \<lparr>Filename = filepath_Base ''photo.png''\<rparr>" and c: "content = ''hello''"
    by (simp_all add: FormFile_upload_request)
  from resp h show "Body (snd (uploadHander ?env empty_fs ?r ?cfg)) =
      p @ ''/2024/03/05/01234567-89ab-cdef-0123-456789abcdef.png''"
    by (simp add: example_env_fields example_date example_uuid example_ext)
  from stored h c show "fst (uploadHander ?env empty_fs ?r ?cfg)
      ''/data/2024/03/05/01234567-89ab-cdef-0123-456789abcdef.png'' = Inr (u, File ''hello'')"
    by (simp add: example_config_fields example_env_fields example_date example_uuid example_ext
        example_paths is_File_empty_fs)
qed

lemma example_upload_png_body:
  "Body (snd (uploadHander example_env empty_fs
     (upload_request ''POST'' ''Basic dXNlcjpwYXNz'' ''file'' ''photo.png'' ''hello'')
     example_config)) = ''files/2024/03/05/01234567-89ab-cdef-0123-456789abcdef.png''"
  using example_upload_result(1) [of True "''files''"] by (simp add: example_records)

lemma example_upload_png_stored:
  "fst (uploadHander example_env empty_fs
     (upload_request ''POST'' ''Basic dXNlcjpwYXNz'' ''file'' ''photo.png'' ''hello'')
     example_config) ''/data/2024/03/05/01234567-89ab-cdef-0123-456789abcdef.png'' =
     Inr (True, File ''hello'')"
  using example_upload_result(2) [of True "''files''"] by (simp only: example_records)

lemma join_example_5:
  "filepath_Join [''/data'', ''2024'', ''03'', ''05'', ''01234567-89ab-cdef-0123-456789abcdef.png''] =
     ''/data/2024/03/05/01234567-89ab-cdef-0123-456789abcdef.png''"
  by (simp add: path_eval)

lemma url_example_5:
  "\<not> containsDotDot ''/files/2024/03/05/01234567-89ab-cdef-0123-456789abcdef.png''"
  "\<not> strings_HasSuffix ''/files/2024/03/05/01234567-89ab-cdef-0123-456789abcdef.png''
       ''/index.html''"
  by (simp_all add: containsDotDot_def strings_HasSuffix_def strings_HasPrefix_def)

lemma url_example_6:
  "containsDotDot
     (''/'' @ backslash_prefix @ ''/2024/03/05/01234567-89ab-cdef-0123-456789abcdef.png'')"
  by (simp add: containsDotDot_def strings_HasPrefix_def strings_FieldsFunc_def isSlashRune_def
      backslash_prefix_def)



end
